theory Spec2Isabelle
  imports Main
begin

section \<open>Instants, calendar dates and the zone library\<close>

text \<open>
  The handlers exchange instants as ISO-8601 strings with millisecond precision
  (\<^verbatim>\<open>toISOString()\<close>). An instant is modelled by the number of milliseconds since
  the epoch that the string denotes; parsing and printing of well-formed strings is
  the identity on that number. A calendar date \<^verbatim>\<open>YYYY-MM-DD\<close> is a triple and a local
  time \<^verbatim>\<open>HH:mm\<close> a pair.
\<close>

type_synonym instant = int

record ymd =
  ymd_year :: int
  ymd_month :: int
  ymd_day :: int

record hhmm =
  hh :: int
  mi :: int

text \<open>
  The proleptic Gregorian calendar of the host's \<^verbatim>\<open>Date\<close> object: leap years, month
  lengths, the day number of a civil date and the civil year of a day number.
\<close>

definition isLeapYear :: "int \<Rightarrow> bool" where
  "isLeapYear y = ((y mod 4 = 0 \<and> y mod 100 \<noteq> 0) \<or> y mod 400 = 0)"

definition daysInMonth :: "int \<Rightarrow> int \<Rightarrow> int" where
  "daysInMonth y m =
     (if m = 2 then (if isLeapYear y then 29 else 28)
      else if m = 4 \<or> m = 6 \<or> m = 9 \<or> m = 11 then 30 else 31)"

definition daysFromCivil :: "int \<Rightarrow> int \<Rightarrow> int \<Rightarrow> int" where
  "daysFromCivil y m d =
     (let y' = (if m \<le> 2 then y - 1 else y);
          era = y' div 400;
          yoe = y' - era * 400;
          doy = (153 * (if m > 2 then m - 3 else m + 9) + 2) div 5 + d - 1;
          doe = yoe * 365 + yoe div 4 - yoe div 100 + doy
      in era * 146097 + doe - 719468)"

definition yearOfDays :: "int \<Rightarrow> int" where
  "yearOfDays z =
     (let z' = z + 719468;
          era = z' div 146097;
          doe = z' - era * 146097;
          yoe = (doe - doe div 1460 + doe div 36524 - doe div 146096) div 365;
          doy = doe - (365 * yoe + yoe div 4 - yoe div 100);
          mp = (5 * doy + 2) div 153
      in yoe + era * 400 + (if mp < 10 then 0 else 1))"

definition MS_PER_DAY :: int where
  "MS_PER_DAY = 86400000"

text \<open>The wall-clock reading \<open>date\<close>T\<open>time\<close> as milliseconds, read as if it were UTC.\<close>

definition wallClockMs :: "ymd \<Rightarrow> hhmm \<Rightarrow> int" where
  "wallClockMs d t =
     daysFromCivil (ymd_year d) (ymd_month d) (ymd_day d) * MS_PER_DAY
       + hh t * 3600000 + mi t * 60000"

text \<open>\<^verbatim>\<open>dayjs(x).year()\<close> for a process whose local zone is UTC.\<close>

definition yearOf :: "instant \<Rightarrow> int" where
  "yearOf ms = yearOfDays (ms div MS_PER_DAY)"

text \<open>
  \<^verbatim>\<open>dayjs(date).year(y).format('YYYY-MM-DD')\<close>: the year is replaced and the day of the
  month is clamped to the length of the month in the new year (29 February becomes
  28 February in a common year).
\<close>

definition setYear :: "ymd \<Rightarrow> int \<Rightarrow> ymd" where
  "setYear d y =
     \<lparr> ymd_year = y, ymd_month = ymd_month d,
       ymd_day = min (ymd_day d) (daysInMonth y (ymd_month d)) \<rparr>"

text \<open>
  The zone database is a parameter: \<open>zones tz\<close> is \<open>None\<close> for a name that is not
  an IANA zone (\<^verbatim>\<open>dayjs.tz\<close> throws), and otherwise the function that takes a wall-clock
  reading in that zone to the UTC instant (\<^verbatim>\<open>dayjs.tz(s, tz).utc()\<close>).
\<close>

type_synonym zonedb = "string \<Rightarrow> (int \<Rightarrow> instant) option"

text \<open>
  Two zones without daylight saving, used for concrete runs: UTC, and
  Pacific/Kiritimati, fourteen hours ahead of UTC.
\<close>

definition fixedZones :: zonedb where
  "fixedZones tz =
     (if tz = ''UTC'' then Some (\<lambda>w. w)
      else if tz = ''Pacific/Kiritimati'' then Some (\<lambda>w. w - 14 * 3600000)
      else None)"

section \<open>Next-fire computation (utils/notify.ts)\<close>

datatype error =
    InvalidTimeZone
  | ConditionalCheckFailedException
  | StoreError
  | WebhookFailed string
  | NetworkError
  | QueueError

text \<open>The optional fourth argument: absent, not a parseable date, or an instant.\<close>

datatype referenceTimeIso = NoReference | InvalidReference | Reference instant

definition notifyCandidate :: "(int \<Rightarrow> instant) \<Rightarrow> ymd \<Rightarrow> hhmm \<Rightarrow> int \<Rightarrow> instant" where
  "notifyCandidate toUtc birthday notifyLocalTime year =
     toUtc (wallClockMs (setYear birthday year) notifyLocalTime)"

text \<open>
  \<open>clock\<close> is the reading of \<^verbatim>\<open>dayjs()\<close>, used when no valid reference is passed.
  The comparison is \<^verbatim>\<open>isBefore\<close>: strictly earlier.
\<close>

definition referenceNow :: "referenceTimeIso \<Rightarrow> instant \<Rightarrow> instant" where
  "referenceNow r clock = (case r of Reference t \<Rightarrow> t | _ \<Rightarrow> clock)"

definition computeNotifyUtc ::
  "zonedb \<Rightarrow> instant \<Rightarrow> ymd \<Rightarrow> string \<Rightarrow> hhmm \<Rightarrow> referenceTimeIso \<Rightarrow> error + instant" where
  "computeNotifyUtc zones clock birthday tz notifyLocalTime r =
     (let now = referenceNow r clock;
          year = yearOf now
      in case zones tz of
           None \<Rightarrow> Inl InvalidTimeZone
         | Some toUtc \<Rightarrow>
             (let notifyUtc = notifyCandidate toUtc birthday notifyLocalTime year
              in if notifyUtc < now
                 then Inr (notifyCandidate toUtc birthday notifyLocalTime (year + 1))
                 else Inr notifyUtc))"

section \<open>Data model (types.ts, queues/greeter.ts)\<close>

datatype MessageSendingStatus = pending | sending | completed | failed

datatype UserEventName = birthday | anniversary

definition eventName :: "UserEventName \<Rightarrow> string" where
  "eventName t = (case t of birthday \<Rightarrow> ''birthday'' | anniversary \<Rightarrow> ''anniversary'')"

record User =
  id' :: string
  firstName :: string
  lastName :: string
  timezone :: string
  createdAt :: instant
  updatedAt :: instant

text \<open>\<^verbatim>\<open>GreeterMessage = User & { pk, sk, eventType, eventDate, ... }\<close>\<close>

record GreeterMessage = User +
  pk :: string
  sk :: string
  eventType :: UserEventName
  eventDate :: ymd
  notifyLocalTime :: hhmm
  lastSentYear :: int
  yearNow :: int

text \<open>
  A stored item is a bag of optional attributes (\<^verbatim>\<open>DynamoDBUserItem\<close>): the metadata
  item carries \<open>data\<close>, an event item the others. The key \<open>(PK, SK)\<close> is kept
  beside the item.
\<close>

record item =
  i_data :: "User option"
  i_type :: "UserEventName option"
  i_date :: "ymd option"
  i_notifyLocalTime :: "hhmm option"
  i_notifyUtc :: "instant option"
  i_lastSentYear :: "int option"
  i_GSI1PK :: "string option"
  i_sendingStatus :: "MessageSendingStatus option"
  i_sendingAttemptedAt :: "instant option"
  i_sendingCompletedAt :: "instant option"
  i_markedFailedAt :: "instant option"
  i_failureReason :: "string option"
  i_webhookResponseCode :: "int option"
  i_webhookDeliveredAt :: "instant option"
  i_updatedAt :: "instant option"

definition emptyItem :: item where
  "emptyItem =
     \<lparr> i_data = None, i_type = None, i_date = None, i_notifyLocalTime = None,
       i_notifyUtc = None, i_lastSentYear = None, i_GSI1PK = None,
       i_sendingStatus = None, i_sendingAttemptedAt = None,
       i_sendingCompletedAt = None, i_markedFailedAt = None, i_failureReason = None,
       i_webhookResponseCode = None, i_webhookDeliveredAt = None, i_updatedAt = None \<rparr>"

type_synonym key = "string \<times> string"
type_synonym table = "key \<Rightarrow> item option"

section \<open>The outside world: store, queue and webhook calls\<close>

text \<open>
  The four update expressions the handlers send. Each names its expression attribute
  values in the order of the source.
  \<^item> \<open>SetFailedWithReason now reason\<close>:
    \<^verbatim>\<open>SET sendingStatus = :failed, markedFailedAt = :now, failureReason = :reason, updatedAt = :now\<close>
  \<^item> \<open>ClaimForYear currentLastSentYear year notifyUtc now\<close>:
    \<^verbatim>\<open>SET sendingStatus = :sending, sendingAttemptedAt = :now, lastSentYear = :year, notifyUtc = :notifyUtc, updatedAt = :now\<close>
    under the condition
    \<^verbatim>\<open>lastSentYear = :currentLastSentYear AND (attribute_not_exists(sendingStatus) OR sendingStatus IN (:pending, :failed))\<close>
  \<^item> \<open>SetFailed now\<close>: \<^verbatim>\<open>SET sendingStatus = :failed, updatedAt = :now\<close>
  \<^item> \<open>SetCompleted now code deliveredAt\<close>:
    \<^verbatim>\<open>SET sendingStatus = :completed, sendingCompletedAt = :now, webhookResponseCode = :code, webhookDeliveredAt = :deliveredAt, updatedAt = :now\<close>
\<close>

datatype update_expr =
    SetFailedWithReason instant string
  | ClaimForYear int int instant instant
  | SetFailed instant
  | SetCompleted instant int instant

text \<open>
  What the producer reads from an event item of the index: \<open>type\<close>, \<open>date\<close> and
  \<open>notifyLocalTime\<close> as the item carries them, possibly missing.
\<close>

record partial_event =
  p_pk :: string
  p_sk :: string
  p_type :: "UserEventName option"
  p_date :: "ymd option"
  p_notifyLocalTime :: "hhmm option"
  p_lastSentYear :: int

text \<open>
  A message body: the JSON text of a greeter message, the JSON text the producer builds
  from an event with missing members (user, event, year), or any other text.
\<close>

datatype sqs_body =
    GreeterJson GreeterMessage
  | PartialGreeterJson User partial_event int
  | Text string

datatype query_expr =
    DueQuery instant int "nat option"
  | MissedQuery instant instant int
  | SendingQuery

datatype effect =
    DbGet key
  | DbQuery query_expr
  | DbUpdate key update_expr
  | HttpPost string "(string \<times> string) list" string
  | SqsGetQueueUrl string
  | SqsGetQueueAttributes string
  | SqsSendMessage string "sqs_body option" "string option" string
  | SqsReceiveMessage string nat
  | SqsDeleteMessage string string

record world =
  table :: table
  trace :: "effect list"
  cachedQueueUrls :: "string \<Rightarrow> string option"

definition emit :: "effect \<Rightarrow> world \<Rightarrow> world" where
  "emit e w = w\<lparr>trace := trace w @ [e]\<rparr>"

text \<open>Writes of other workers that land between two calls of this one.\<close>

definition interleave :: "(table \<Rightarrow> table) \<Rightarrow> world \<Rightarrow> world" where
  "interleave f w = w\<lparr>table := f (table w)\<rparr>"

definition isHttpPost :: "effect \<Rightarrow> bool" where
  "isHttpPost e = (case e of HttpPost _ _ _ \<Rightarrow> True | _ \<Rightarrow> False)"

definition isDbUpdate :: "effect \<Rightarrow> bool" where
  "isDbUpdate e = (case e of DbUpdate _ _ \<Rightarrow> True | _ \<Rightarrow> False)"

text \<open>The condition expression of an update, evaluated on the stored item (if any).\<close>

definition conditionHolds :: "update_expr \<Rightarrow> item option \<Rightarrow> bool" where
  "conditionHolds u stored =
     (case u of
        ClaimForYear currentLastSentYear _ _ _ \<Rightarrow>
          (case stored of
             None \<Rightarrow> False
           | Some it \<Rightarrow>
               i_lastSentYear it = Some currentLastSentYear
               \<and> (i_sendingStatus it = None
                  \<or> i_sendingStatus it = Some pending
                  \<or> i_sendingStatus it = Some failed))
      | _ \<Rightarrow> True)"

definition assign :: "update_expr \<Rightarrow> item \<Rightarrow> item" where
  "assign u it =
     (case u of
        SetFailedWithReason now reason \<Rightarrow>
          it\<lparr> i_sendingStatus := Some failed, i_markedFailedAt := Some now,
              i_failureReason := Some reason, i_updatedAt := Some now \<rparr>
      | ClaimForYear _ year notifyUtc now \<Rightarrow>
          it\<lparr> i_sendingStatus := Some sending, i_sendingAttemptedAt := Some now,
              i_lastSentYear := Some year, i_notifyUtc := Some notifyUtc,
              i_updatedAt := Some now \<rparr>
      | SetFailed now \<Rightarrow>
          it\<lparr> i_sendingStatus := Some failed, i_updatedAt := Some now \<rparr>
      | SetCompleted now code deliveredAt \<Rightarrow>
          it\<lparr> i_sendingStatus := Some completed, i_sendingCompletedAt := Some now,
              i_webhookResponseCode := Some code, i_webhookDeliveredAt := Some deliveredAt,
              i_updatedAt := Some now \<rparr>)"

text \<open>
  \<^verbatim>\<open>GetCommand\<close> and \<^verbatim>\<open>UpdateCommand\<close>. A call that \<open>fault\<close>s rejects without
  touching the table. An update of a key that holds no item creates one from the
  assigned attributes, unless its condition fails.
\<close>

definition dbGet :: "bool \<Rightarrow> key \<Rightarrow> world \<Rightarrow> (error + item option) \<times> world" where
  "dbGet fault k w =
     (let w' = emit (DbGet k) w
      in if fault then (Inl StoreError, w') else (Inr (table w' k), w'))"

definition dbUpdate ::
  "bool \<Rightarrow> key \<Rightarrow> update_expr \<Rightarrow> world \<Rightarrow> (error + item) \<times> world" where
  "dbUpdate fault k u w =
     (let w' = emit (DbUpdate k u) w
      in if fault then (Inl StoreError, w')
         else if \<not> conditionHolds u (table w' k) then (Inl ConditionalCheckFailedException, w')
         else (let it = assign u (case table w' k of None \<Rightarrow> emptyItem | Some old \<Rightarrow> old)
               in (Inr it, w'\<lparr>table := (table w')(k \<mapsto> it)\<rparr>)))"

text \<open>Rendering of an integer by a template literal.\<close>

fun showNat :: "nat \<Rightarrow> string" where
  "showNat n =
     (if n < 10 then [''0123456789'' ! n]
      else showNat (n div 10) @ [''0123456789'' ! (n mod 10)])"

definition showInt :: "int \<Rightarrow> string" where
  "showInt i = (if i < 0 then ''-'' @ showNat (nat (- i)) else showNat (nat i))"

record config =
  HOOKBIN_URL :: string
  GREETER_QUEUE_NAME :: string
  DLQ_QUEUE_NAME :: string

section \<open>The delivery worker (handlers/sender.ts)\<close>

definition STUCK_TIMEOUT_MS :: int where
  "STUCK_TIMEOUT_MS = 5 * 60 * 1000"

text \<open>
  What the environment does while one record is processed. Store calls are numbered by
  their place in the handler: 0 the read, 1 the stuck mark, 2 the claim, 3 the failure
  mark, 4 the completion. Clock readings likewise: 0 \<^verbatim>\<open>Date.now()\<close> of the stuck check,
  1 to 4 the \<^verbatim>\<open>:now\<close> of store calls 1 to 4, 5 the \<^verbatim>\<open>:deliveredAt\<close>.
  \<^item> \<open>s_dbFault n\<close>: store call \<open>n\<close> rejects with an error other than a failed condition;
  \<^item> \<open>s_concurrent n\<close>: what other workers write before store call \<open>n\<close>;
  \<^item> \<open>s_fetch\<close>: the status of the webhook response, \<open>None\<close> when \<^verbatim>\<open>fetch\<close> rejects;
  \<^item> \<open>s_clock n\<close>: clock reading \<open>n\<close>.
\<close>

record sender_env =
  s_dbFault :: "nat \<Rightarrow> bool"
  s_concurrent :: "nat \<Rightarrow> table \<Rightarrow> table"
  s_fetch :: "int option"
  s_clock :: "nat \<Rightarrow> instant"

datatype skip = EventMissing | Duplicate | InFlight | LostRace

text \<open>
  How the handler leaves a record: \<open>Skipped\<close> is a \<^verbatim>\<open>continue\<close>, \<open>Delivered b\<close> the end
  of the loop body after a 200 response (\<open>b\<close>: the completion write went through),
  \<open>Raised\<close> an error thrown out of the handler.
\<close>

datatype outcome = Skipped skip | Delivered bool | Raised error

definition fullName :: "GreeterMessage \<Rightarrow> string" where
  "fullName m = firstName m @ '' '' @ lastName m"

definition idempotencyKey :: "GreeterMessage \<Rightarrow> string" where
  "idempotencyKey m = pk m @ ''-'' @ eventName (eventType m) @ ''-'' @ showInt (yearNow m)"

text \<open>The request of phase 2; the body is the \<open>message\<close> member of the JSON object.\<close>

definition webhookPost :: "config \<Rightarrow> GreeterMessage \<Rightarrow> effect" where
  "webhookPost cfg m =
     HttpPost (HOOKBIN_URL cfg)
       [(''Content-Type'', ''application/json''), (''Idempotency-Key'', idempotencyKey m)]
       (''Hey '' @ fullName m @ '', it's your '' @ eventName (eventType m) @ ''!'')"

definition STUCK_REASON :: string where
  "STUCK_REASON = ''Stuck in sending state - likely webhook timeout or Lambda crash''"

text \<open>Phases 2 and 3: the webhook call, then the failure mark or the completion.\<close>

definition deliverPhase :: "config \<Rightarrow> sender_env \<Rightarrow> GreeterMessage \<Rightarrow> world \<Rightarrow> outcome \<times> world" where
  "deliverPhase cfg env m w =
     (let w1 = emit (webhookPost cfg m) w
      in case s_fetch env of
           None \<Rightarrow> (Raised NetworkError, w1)
         | Some status \<Rightarrow>
             if status \<noteq> 200 then
               (let (_, w2) = dbUpdate (s_dbFault env 3) (pk m, sk m)
                                (SetFailed (s_clock env 3)) (interleave (s_concurrent env 3) w1)
                in (Raised (WebhookFailed
                      (''Failed to send message to Hookbin for user '' @ fullName m)), w2))
             else
               (let (r, w2) = dbUpdate (s_dbFault env 4) (pk m, sk m)
                                (SetCompleted (s_clock env 4) status (s_clock env 5))
                                (interleave (s_concurrent env 4) w1)
                in (Delivered (case r of Inr _ \<Rightarrow> True | Inl _ \<Rightarrow> False), w2)))"

text \<open>Phase 1: next year's instant, then the conditional claim.\<close>

definition claimPhase ::
  "zonedb \<Rightarrow> config \<Rightarrow> sender_env \<Rightarrow> GreeterMessage \<Rightarrow> int \<Rightarrow> world \<Rightarrow> outcome \<times> world" where
  "claimPhase zones cfg env m currentLastSentYear w =
     (case zones (timezone m) of
        None \<Rightarrow> (Raised InvalidTimeZone, w)
      | Some toUtc \<Rightarrow>
          (let nextNotifyUtc = notifyCandidate toUtc (eventDate m) (notifyLocalTime m) (yearNow m + 1);
               (r, w1) = dbUpdate (s_dbFault env 2) (pk m, sk m)
                           (ClaimForYear currentLastSentYear (yearNow m) nextNotifyUtc (s_clock env 2))
                           (interleave (s_concurrent env 2) w)
           in case r of
                Inl ConditionalCheckFailedException \<Rightarrow> (Skipped LostRace, w1)
              | Inl e \<Rightarrow> (Raised e, w1)
              | Inr _ \<Rightarrow> deliverPhase cfg env m w1))"

text \<open>
  The body of the loop over \<^verbatim>\<open>event.Records\<close>, for one parsed record. The test
  \<^verbatim>\<open>currentSendingStatus === 'sending' && sendingAttemptedAt\<close> is the case on the
  timestamp followed by the test of the status.
\<close>

definition senderRecord ::
  "zonedb \<Rightarrow> config \<Rightarrow> sender_env \<Rightarrow> GreeterMessage \<Rightarrow> world \<Rightarrow> outcome \<times> world" where
  "senderRecord zones cfg env m w =
     (let (g, w1) = dbGet (s_dbFault env 0) (pk m, sk m) (interleave (s_concurrent env 0) w)
      in case g of
           Inl e \<Rightarrow> (Raised e, w1)
         | Inr None \<Rightarrow> (Skipped EventMissing, w1)
         | Inr (Some currentEvent) \<Rightarrow>
             (let currentLastSentYear = (case i_lastSentYear currentEvent of None \<Rightarrow> 0 | Some y \<Rightarrow> y);
                  currentSendingStatus = i_sendingStatus currentEvent;
                  sendingAttemptedAt = i_sendingAttemptedAt currentEvent
              in if currentLastSentYear \<ge> yearNow m \<and> currentSendingStatus = Some completed
                 then (Skipped Duplicate, w1)
                 else
                   (case sendingAttemptedAt of
                      Some attemptedAt \<Rightarrow>
                        if currentSendingStatus = Some sending then
                          (let elapsedMs = s_clock env 0 - attemptedAt
                           in if elapsedMs < STUCK_TIMEOUT_MS then (Skipped InFlight, w1)
                              else
                                (let (_, w2) = dbUpdate (s_dbFault env 1) (pk m, sk m)
                                                 (SetFailedWithReason (s_clock env 1) STUCK_REASON)
                                                 (interleave (s_concurrent env 1) w1)
                                 in claimPhase zones cfg env m currentLastSentYear w2))
                        else claimPhase zones cfg env m currentLastSentYear w1
                    | None \<Rightarrow> claimPhase zones cfg env m currentLastSentYear w1)))"

text \<open>The loop: a raised error ends the invocation, a skip moves to the next record.\<close>

fun sender ::
  "zonedb \<Rightarrow> config \<Rightarrow> (nat \<Rightarrow> sender_env) \<Rightarrow> nat \<Rightarrow> GreeterMessage list \<Rightarrow> world
     \<Rightarrow> outcome list \<times> world" where
  "sender zones cfg envs i [] w = ([], w)"
| "sender zones cfg envs i (m # ms) w =
     (case senderRecord zones cfg (envs i) m w of
        (Raised e, w1) \<Rightarrow> ([Raised e], w1)
      | (out, w1) \<Rightarrow>
          (let (outs, w2) = sender zones cfg envs (Suc i) ms w1 in (out # outs, w2)))"

section \<open>Queue gateway (lib/sqs.ts, queues/greeter.ts)\<close>

text \<open>
  \<open>urls name\<close> is the answer of \<^verbatim>\<open>GetQueueUrlCommand\<close>, \<open>None\<close> when it rejects.
  Resolved URLs are cached; an empty cached string is falsy and is looked up again.
\<close>

definition getQueueUrl ::
  "(string \<Rightarrow> string option) \<Rightarrow> string \<Rightarrow> world \<Rightarrow> (error + string) \<times> world" where
  "getQueueUrl urls queueName w =
     (case cachedQueueUrls w queueName of
        Some (c # cs) \<Rightarrow> (Inr (c # cs), w)
      | _ \<Rightarrow>
          (let w1 = emit (SqsGetQueueUrl queueName) w
           in case urls queueName of
                None \<Rightarrow> (Inl QueueError, w1)
              | Some resolvedUrl \<Rightarrow>
                  (Inr resolvedUrl,
                   w1\<lparr>cachedQueueUrls := (cachedQueueUrls w1)(queueName \<mapsto> resolvedUrl)\<rparr>)))"

text \<open>
  \<open>attributes\<close> is the answer of \<^verbatim>\<open>GetQueueAttributesCommand\<close>: \<open>None\<close> when it
  rejects, \<open>Some None\<close> when \<^verbatim>\<open>ApproximateNumberOfMessages\<close> is missing, otherwise the
  count. Every failure is caught and answered by 0.
\<close>

definition getMessageCount ::
  "(string \<Rightarrow> string option) \<Rightarrow> nat option option \<Rightarrow> string \<Rightarrow> world \<Rightarrow> nat \<times> world" where
  "getMessageCount urls attributes queueName w =
     (case getQueueUrl urls queueName w of
        (Inl _, w1) \<Rightarrow> (0, w1)
      | (Inr queueUrl, w1) \<Rightarrow>
          (let w2 = emit (SqsGetQueueAttributes queueUrl) w1
           in case attributes of
                None \<Rightarrow> (0, w2)
              | Some None \<Rightarrow> (0, w2)
              | Some (Some count) \<Rightarrow> (count, w2)))"

record event_ref =
  e_pk :: string
  e_sk :: string
  e_type :: UserEventName
  e_date :: ymd
  e_notifyLocalTime :: hhmm
  e_lastSentYear :: int

definition greeterMessage :: "User \<Rightarrow> event_ref \<Rightarrow> int \<Rightarrow> GreeterMessage" where
  "greeterMessage user event year =
     \<lparr> id' = id' user, firstName = firstName user, lastName = lastName user,
       timezone = timezone user, createdAt = createdAt user, updatedAt = updatedAt user,
       pk = e_pk event, sk = e_sk event, eventType = e_type event, eventDate = e_date event,
       notifyLocalTime = e_notifyLocalTime event, lastSentYear = e_lastSentYear event,
       yearNow = year \<rparr>"

definition greeterSend :: "string \<Rightarrow> User \<Rightarrow> event_ref \<Rightarrow> int \<Rightarrow> effect" where
  "greeterSend queueUrl user event year =
     SqsSendMessage queueUrl (Some (GreeterJson (greeterMessage user event year)))
       (Some (eventName (e_type event)))
       (id' user @ ''-'' @ eventName (e_type event) @ ''-'' @ showInt year)"

text \<open>
  \<open>year\<close> is \<^verbatim>\<open>new Date().getFullYear()\<close> read at the call; \<open>sendFault\<close> says
  that \<^verbatim>\<open>SendMessageCommand\<close> rejects.
\<close>

definition enqueueGreeterMessage ::
  "config \<Rightarrow> (string \<Rightarrow> string option) \<Rightarrow> bool \<Rightarrow> int \<Rightarrow> User \<Rightarrow> event_ref \<Rightarrow> world
     \<Rightarrow> (error + unit) \<times> world" where
  "enqueueGreeterMessage cfg urls sendFault year user event w =
     (case getQueueUrl urls (GREETER_QUEUE_NAME cfg) w of
        (Inl e, w1) \<Rightarrow> (Inl e, w1)
      | (Inr queueUrl, w1) \<Rightarrow>
          (let w2 = emit (greeterSend queueUrl user event year) w1
           in if sendFault then (Inl QueueError, w2) else (Inr (), w2)))"

text \<open>
  The same function on an event that lacks \<open>type\<close>, \<open>date\<close> or
  \<open>notifyLocalTime\<close>: the missing members are left out of the body, a missing type
  leaves \<^verbatim>\<open>MessageGroupId\<close> undefined and prints as \<open>undefined\<close> in the deduplication
  id. Whether the queue takes such a send is the environment's answer.
\<close>

definition partialSend :: "string \<Rightarrow> User \<Rightarrow> partial_event \<Rightarrow> int \<Rightarrow> effect" where
  "partialSend queueUrl user event year =
     SqsSendMessage queueUrl (Some (PartialGreeterJson user event year))
       (map_option eventName (p_type event))
       (id' user @ ''-''
          @ (case p_type event of None \<Rightarrow> ''undefined'' | Some t \<Rightarrow> eventName t)
          @ ''-'' @ showInt year)"

definition enqueuePartial ::
  "config \<Rightarrow> (string \<Rightarrow> string option) \<Rightarrow> bool \<Rightarrow> int \<Rightarrow> User \<Rightarrow> partial_event \<Rightarrow> world
     \<Rightarrow> (error + unit) \<times> world" where
  "enqueuePartial cfg urls sendFault year user event w =
     (case getQueueUrl urls (GREETER_QUEUE_NAME cfg) w of
        (Inl e, w1) \<Rightarrow> (Inl e, w1)
      | (Inr queueUrl, w1) \<Rightarrow>
          (let w2 = emit (partialSend queueUrl user event year) w1
           in if sendFault then (Inl QueueError, w2) else (Inr (), w2)))"

section \<open>The due-event scheduler (handlers/scheduler.ts)\<close>

definition PAGE_LIMIT :: nat where
  "PAGE_LIMIT = 100"

definition ALL_EVENTS_PK :: string where
  "ALL_EVENTS_PK = ''EVENT''"

text \<open>
  The secondary index. The store enumerates the keys of its items in range order
  (\<open>index\<close>); an item belongs to the partition when it carries
  \<^verbatim>\<open>GSI1PK = "EVENT"\<close> and a \<^verbatim>\<open>notifyUtc\<close>.
\<close>

definition indexPartition :: "key list \<Rightarrow> table \<Rightarrow> (key \<times> item) list" where
  "indexPartition index tbl =
     concat (map (\<lambda>k. case tbl k of
                         None \<Rightarrow> []
                       | Some it \<Rightarrow>
                           if i_GSI1PK it = Some ALL_EVENTS_PK \<and> i_notifyUtc it \<noteq> None
                           then [(k, it)] else []) index)"

definition notYetSent :: "int \<Rightarrow> item \<Rightarrow> bool" where
  "notYetSent year it = (case i_lastSentYear it of None \<Rightarrow> True | Some y \<Rightarrow> y < year)"

definition dueBy :: "instant \<Rightarrow> item \<Rightarrow> bool" where
  "dueBy now it = (case i_notifyUtc it of None \<Rightarrow> False | Some u \<Rightarrow> u \<le> now)"

text \<open>
  One page of the due query: the key condition selects, \<^verbatim>\<open>Limit\<close> bounds the number
  of items evaluated from the cursor on, the filter is applied to those, and a cursor
  is returned when the limit was reached.
\<close>

definition queryDuePage ::
  "key list \<Rightarrow> instant \<Rightarrow> int \<Rightarrow> nat \<Rightarrow> table \<Rightarrow> (key \<times> item) list \<times> nat option" where
  "queryDuePage index now year cursor tbl =
     (let evaluated = take PAGE_LIMIT (drop cursor
                        (filter (\<lambda>(k, it). dueBy now it) (indexPartition index tbl)))
      in (filter (\<lambda>(k, it). notYetSent year it) evaluated,
          if length evaluated = PAGE_LIMIT then Some (cursor + PAGE_LIMIT) else None))"

text \<open>
  The environment of one sweep: the two clock readings taken at the top, the index
  enumeration, which calls reject (the query of page \<open>n\<close>, the metadata read and the
  send for an event key), the year read inside each enqueue, and the queue URLs.
\<close>

record sched_env =
  sch_nowUtc :: instant
  sch_currentYear :: int
  sch_index :: "key list"
  sch_queryFault :: "nat \<Rightarrow> bool"
  sch_getFault :: "key \<Rightarrow> bool"
  sch_sendFault :: "key \<Rightarrow> bool"
  sch_yearNow :: "key \<Rightarrow> int"
  sch_urls :: "string \<Rightarrow> string option"

record sched_counters =
  totalUsersProcessed :: nat
  totalEnqueueFailures :: nat
  totalPages :: nat

text \<open>
  One event item of a page. An item that carries \<open>type\<close>, \<open>date\<close> and
  \<open>notifyLocalTime\<close> is enqueued as a greeter message; an item that lacks one of them
  is passed on with the member missing.
\<close>

definition scheduleItem ::
  "config \<Rightarrow> sched_env \<Rightarrow> key \<times> item \<Rightarrow> sched_counters \<times> world \<Rightarrow> sched_counters \<times> world" where
  "scheduleItem cfg env ki cw =
     (let (k, eventItem) = ki; (c, w) = cw;
          failedItem = c\<lparr>totalEnqueueFailures := totalEnqueueFailures c + 1\<rparr>;
          (g, w1) = dbGet (sch_getFault env k) (fst k, ''METADATA'') w
      in case g of
           Inl _ \<Rightarrow> (failedItem, w1)
         | Inr metadata \<Rightarrow>
             (case Option.bind metadata i_data of
                None \<Rightarrow> (c, w1)
              | Some userData \<Rightarrow>
                  (case (i_type eventItem, i_date eventItem, i_notifyLocalTime eventItem) of
                     (Some t, Some d, Some n) \<Rightarrow>
                       (case enqueueGreeterMessage cfg (sch_urls env) (sch_sendFault env k)
                               (sch_yearNow env k) userData
                               \<lparr> e_pk = fst k, e_sk = snd k, e_type = t, e_date = d,
                                 e_notifyLocalTime = n,
                                 e_lastSentYear =
                                   (case i_lastSentYear eventItem of None \<Rightarrow> 0 | Some y \<Rightarrow> y) \<rparr>
                               w1 of
                          (Inl _, w2) \<Rightarrow> (failedItem, w2)
                        | (Inr _, w2) \<Rightarrow>
                            (c\<lparr>totalUsersProcessed := totalUsersProcessed c + 1\<rparr>, w2))
                   | _ \<Rightarrow>
                       (case enqueuePartial cfg (sch_urls env) (sch_sendFault env k)
                               (sch_yearNow env k) userData
                               \<lparr> p_pk = fst k, p_sk = snd k, p_type = i_type eventItem,
                                 p_date = i_date eventItem,
                                 p_notifyLocalTime = i_notifyLocalTime eventItem,
                                 p_lastSentYear =
                                   (case i_lastSentYear eventItem of None \<Rightarrow> 0 | Some y \<Rightarrow> y) \<rparr>
                               w1 of
                          (Inl _, w2) \<Rightarrow> (failedItem, w2)
                        | (Inr _, w2) \<Rightarrow>
                            (c\<lparr>totalUsersProcessed := totalUsersProcessed c + 1\<rparr>, w2)))))"

text \<open>
  The \<^verbatim>\<open>do ... while (lastEvaluatedKey)\<close> loop. A rejected page query is rethrown and
  ends the sweep. Every statement of the block that handles a page sits inside the
  per-item \<^verbatim>\<open>try\<close> or cannot throw, so the handler that would skip a page is never
  entered.
\<close>

function schedulerLoop ::
  "config \<Rightarrow> sched_env \<Rightarrow> nat \<Rightarrow> nat \<Rightarrow> sched_counters \<Rightarrow> world
     \<Rightarrow> (error + sched_counters) \<times> world" where
  "schedulerLoop cfg env pageNumber cursor c w =
     (let pageNumber' = pageNumber + 1;
          c1 = c\<lparr>totalPages := totalPages c + 1\<rparr>;
          w1 = emit (DbQuery (DueQuery (sch_nowUtc env) (sch_currentYear env)
                       (if pageNumber = 0 then None else Some cursor))) w
      in if sch_queryFault env pageNumber' then (Inl StoreError, w1)
         else
           (let (events, lastEvaluatedKey) =
                  queryDuePage (sch_index env) (sch_nowUtc env) (sch_currentYear env) cursor (table w1);
                (c2, w2) = foldl (\<lambda>cw ki. scheduleItem cfg env ki cw) (c1, w1) events
            in case lastEvaluatedKey of
                 None \<Rightarrow> (Inr c2, w2)
               | Some cursor' \<Rightarrow> schedulerLoop cfg env pageNumber' cursor' c2 w2))"
  by pat_completeness auto
termination
proof -
  have part: "length (indexPartition index tbl) \<le> length index" for index tbl
    unfolding indexPartition_def
    by (induction index) (auto split: option.splits)
  have step: "cursor < cursor' \<and> cursor' \<le> length index"
    if "queryDuePage index now year cursor tbl = (events, Some cursor')"
    for index now year cursor tbl events cursor'
  proof -
    let ?xs = "filter (\<lambda>(k, it). dueBy now it) (indexPartition index tbl)"
    from that have full: "length (take PAGE_LIMIT (drop cursor ?xs)) = PAGE_LIMIT"
      and c': "cursor' = cursor + PAGE_LIMIT"
      by (auto simp: queryDuePage_def Let_def split: if_splits)
    from full have "cursor + PAGE_LIMIT \<le> length ?xs"
      by (simp add: PAGE_LIMIT_def min_def split: if_splits)
    moreover have "length ?xs \<le> length index"
      using length_filter_le [of _ "indexPartition index tbl"] part [of index tbl]
      by (rule order_trans)
    ultimately show ?thesis using c' by (simp add: PAGE_LIMIT_def)
  qed
  show ?thesis
    apply (relation "measure (\<lambda>(cfg, env, pageNumber, cursor, c, w). length (sch_index env) - cursor)")
     apply simp
    apply (auto dest!: step [OF sym])
    done
qed

definition scheduler :: "config \<Rightarrow> sched_env \<Rightarrow> world \<Rightarrow> (error + sched_counters) \<times> world" where
  "scheduler cfg env w =
     schedulerLoop cfg env 0 0
       \<lparr> totalUsersProcessed = 0, totalEnqueueFailures = 0, totalPages = 0 \<rparr> w"

section \<open>The DLQ processor (handlers/dlqProcessor.ts)\<close>

record sqs_message =
  Body :: "sqs_body option"
  ReceiptHandle :: string
  MessageGroupId :: "string option"
  MessageDeduplicationId :: "string option"

text \<open>
  The environment of one run: the queue URLs, the answer to the depth query, the status
  of the probe response (\<open>None\<close>: \<^verbatim>\<open>fetch\<close> rejects), the answer to the receive
  (\<open>None\<close>: it rejects), what \<^verbatim>\<open>JSON.parse\<close> makes of a text, which sends and deletes
  reject (by position in the batch), and the fallback deduplication id drawn for a
  message.
\<close>

datatype json_parse = JsonSyntaxError | JsonNull | JsonValue

record dlq_env =
  d_urls :: "string \<Rightarrow> string option"
  d_attributes :: "nat option option"
  d_probe :: "int option"
  d_receive :: "sqs_message list option"
  d_json :: "string \<Rightarrow> json_parse"
  d_sendFault :: "nat \<Rightarrow> bool"
  d_deleteFault :: "nat \<Rightarrow> bool"
  d_fallbackId :: "nat \<Rightarrow> string"

record DLQStats =
  messagesInDLQ :: nat
  messagesProcessed :: nat
  messagesRedriven :: nat
  messagesFailed :: nat
  isServiceHealthy :: bool

record dlq_response =
  statusCode :: int
  message :: string
  stats :: DLQStats

definition healthProbe :: "config \<Rightarrow> effect" where
  "healthProbe cfg =
     HttpPost (HOOKBIN_URL cfg) [(''Content-Type'', ''application/json'')]
       ''Health check from DLQ processor''"

definition checkServiceHealth :: "config \<Rightarrow> dlq_env \<Rightarrow> world \<Rightarrow> bool \<times> world" where
  "checkServiceHealth cfg env w =
     (let w1 = emit (healthProbe cfg) w
      in case d_probe env of
           None \<Rightarrow> (False, w1)
         | Some status \<Rightarrow> (status = 200, w1))"

text \<open>\<^verbatim>\<open>x || fallback\<close> on an optional string: a missing or empty string is falsy.\<close>

definition orElse :: "string option \<Rightarrow> string \<Rightarrow> string" where
  "orElse x fallback = (case x of Some (c # cs) \<Rightarrow> c # cs | _ \<Rightarrow> fallback)"

text \<open>
  \<^verbatim>\<open>JSON.parse(message.Body || '{}')\<close> followed by the read of \<^verbatim>\<open>messageBody.fullName\<close>:
  a text that does not parse throws, and so does the read on a body that parses to
  \<^verbatim>\<open>null\<close>; a missing or empty body is read as \<^verbatim>\<open>{}\<close>.
\<close>

definition bodyParses :: "dlq_env \<Rightarrow> sqs_body option \<Rightarrow> bool" where
  "bodyParses env b =
     (case b of
        None \<Rightarrow> True
      | Some (GreeterJson _) \<Rightarrow> True
      | Some (PartialGreeterJson _ _ _) \<Rightarrow> True
      | Some (Text []) \<Rightarrow> True
      | Some (Text (c # cs)) \<Rightarrow> d_json env (c # cs) = JsonValue)"

text \<open>One message of the batch: parse, send to the main queue, delete from the DLQ.\<close>

definition redriveOne ::
  "dlq_env \<Rightarrow> string \<Rightarrow> string \<Rightarrow> nat \<times> sqs_message \<Rightarrow> (nat \<times> nat) \<times> world
     \<Rightarrow> (nat \<times> nat) \<times> world" where
  "redriveOne env dlqUrl greeterQueueUrl im cw =
     (let (i, msg) = im; ((redrivenCount, failedCount), w) = cw
      in if \<not> bodyParses env (Body msg) then ((redrivenCount, failedCount + 1), w)
         else
           (let w1 = emit (SqsSendMessage greeterQueueUrl (Body msg)
                             (Some (orElse (MessageGroupId msg) ''birthday''))
                             (orElse (MessageDeduplicationId msg) (d_fallbackId env i))) w
            in if d_sendFault env i then ((redrivenCount, failedCount + 1), w1)
               else
                 (let w2 = emit (SqsDeleteMessage dlqUrl (ReceiptHandle msg)) w1
                  in if d_deleteFault env i then ((redrivenCount, failedCount + 1), w2)
                     else ((redrivenCount + 1, failedCount), w2))))"

definition redriveMessages :: "config \<Rightarrow> dlq_env \<Rightarrow> nat \<Rightarrow> world \<Rightarrow> (nat \<times> nat) \<times> world" where
  "redriveMessages cfg env maxMessages w =
     (case getQueueUrl (d_urls env) (DLQ_QUEUE_NAME cfg) w of
        (Inl _, w1) \<Rightarrow> ((0, 0), w1)
      | (Inr dlqUrl, w1) \<Rightarrow>
          (case getQueueUrl (d_urls env) (GREETER_QUEUE_NAME cfg) w1 of
             (Inl _, w2) \<Rightarrow> ((0, 0), w2)
           | (Inr greeterQueueUrl, w2) \<Rightarrow>
               (let w3 = emit (SqsReceiveMessage dlqUrl maxMessages) w2
                in case d_receive env of
                     None \<Rightarrow> ((0, 0), w3)
                   | Some messages \<Rightarrow>
                       foldl (\<lambda>cw im. redriveOne env dlqUrl greeterQueueUrl im cw)
                         ((0, 0), w3) (enumerate 0 messages))))"

text \<open>
  None of the three calls below can throw (each catches its own failures), so the
  handler's own \<^verbatim>\<open>catch\<close>, which would answer 500, is never entered.
\<close>

definition dlqProcessor :: "config \<Rightarrow> dlq_env \<Rightarrow> world \<Rightarrow> dlq_response \<times> world" where
  "dlqProcessor cfg env w =
     (let stats0 = \<lparr> messagesInDLQ = 0, messagesProcessed = 0, messagesRedriven = 0,
                     messagesFailed = 0, isServiceHealthy = False \<rparr>;
          (n, w1) = getMessageCount (d_urls env) (d_attributes env) (DLQ_QUEUE_NAME cfg) w;
          stats1 = stats0\<lparr>messagesInDLQ := n\<rparr>
      in if messagesInDLQ stats1 = 0
         then (\<lparr> statusCode = 200, message = ''DLQ is empty'', stats = stats1 \<rparr>, w1)
         else
           (let (healthy, w2) = checkServiceHealth cfg env w1;
                stats2 = stats1\<lparr>isServiceHealthy := healthy\<rparr>
            in if \<not> isServiceHealthy stats2
               then (\<lparr> statusCode = 200, message = ''Service unhealthy, redrive skipped'',
                       stats = stats2 \<rparr>, w2)
               else
                 (let maxMessagesToProcess = min (messagesInDLQ stats2) 10;
                      ((redriven, failed), w3) = redriveMessages cfg env maxMessagesToProcess w2;
                      stats3 = stats2\<lparr> messagesRedriven := redriven, messagesFailed := failed,
                                      messagesProcessed := redriven + failed \<rparr>
                  in (\<lparr> statusCode = 200, message = ''DLQ processing completed'',
                        stats = stats3 \<rparr>, w3))))"

definition isRedriveEffect :: "effect \<Rightarrow> bool" where
  "isRedriveEffect e =
     (case e of
        SqsReceiveMessage _ _ \<Rightarrow> True
      | SqsSendMessage _ _ _ _ \<Rightarrow> True
      | SqsDeleteMessage _ _ \<Rightarrow> True
      | _ \<Rightarrow> False)"

section \<open>The health monitor (handlers/healthCheck.ts)\<close>

definition MONITOR_STUCK_TIMEOUT_MS :: int where
  "MONITOR_STUCK_TIMEOUT_MS = 10 * 60 * 1000"

definition MONITOR_STUCK_REASON :: string where
  "MONITOR_STUCK_REASON =
     ''Stuck in sending state detected by health check - likely webhook timeout or Lambda crash''"

datatype health_status = healthy | warning | critical

datatype stuck_action = monitoring | marked_failed_for_retry

text \<open>\<open>hoursOverdue\<close>, a floating-point number rounded to one decimal, is left out.\<close>

record MissedEvent =
  me_userId :: string
  me_eventType :: "UserEventName option"
  me_eventDate :: "ymd option"
  me_scheduledNotifyUtc :: "instant option"
  me_lastSentYear :: int
  me_sendingStatus :: "MessageSendingStatus option"

record StuckEvent =
  se_userId :: string
  se_eventType :: "UserEventName option"
  se_eventDate :: "ymd option"
  se_sendingStatus :: MessageSendingStatus
  se_sendingAttemptedAt :: instant
  se_minutesStuck :: int
  se_action :: stuck_action

record HealthCheckResult =
  status :: health_status
  missedEventsCount :: nat
  stuckEventsCount :: nat
  missedEvents :: "MissedEvent list"
  stuckEvents :: "StuckEvent list"
  timestamp :: instant

datatype health_body = Report HealthCheckResult | ErrorReport instant

record health_env =
  h_now :: instant
  h_currentYear :: int
  h_index :: "key list"
  h_queryFault :: "nat \<Rightarrow> bool"
  h_updateFault :: "key \<Rightarrow> bool"

definition classify :: "nat \<Rightarrow> health_status" where
  "classify totalIssues =
     (if totalIssues > 0 \<and> totalIssues < 5 then warning
      else if totalIssues \<ge> 5 then critical
      else healthy)"

definition missedFilter :: "instant \<Rightarrow> instant \<Rightarrow> int \<Rightarrow> item \<Rightarrow> bool" where
  "missedFilter oneDayAgo now year it =
     ((case i_notifyUtc it of None \<Rightarrow> False | Some u \<Rightarrow> oneDayAgo \<le> u \<and> u \<le> now)
      \<and> notYetSent year it
      \<and> (i_sendingStatus it = None \<or> i_sendingStatus it \<noteq> Some completed))"

definition toMissedEvent :: "key \<times> item \<Rightarrow> MissedEvent" where
  "toMissedEvent ki =
     (let (k, event) = ki
      in \<lparr> me_userId = fst k, me_eventType = i_type event, me_eventDate = i_date event,
           me_scheduledNotifyUtc = i_notifyUtc event,
           me_lastSentYear = (case i_lastSentYear event of None \<Rightarrow> 0 | Some y \<Rightarrow> y),
           me_sendingStatus = i_sendingStatus event \<rparr>)"

text \<open>\<^verbatim>\<open>Math.round(elapsedMs / 60000)\<close>: to the nearest minute, halves upwards.\<close>

definition roundMinutes :: "int \<Rightarrow> int" where
  "roundMinutes elapsedMs = (elapsedMs + 30000) div 60000"

definition checkStuck ::
  "health_env \<Rightarrow> key \<times> item \<Rightarrow> StuckEvent list \<times> world \<Rightarrow> StuckEvent list \<times> world" where
  "checkStuck env ki sw =
     (let (k, event) = ki; (stuck, w) = sw
      in case i_sendingAttemptedAt event of
           None \<Rightarrow> (stuck, w)
         | Some attemptedAt \<Rightarrow>
             (let elapsedMs = h_now env - attemptedAt;
                  entry = \<lambda>a. \<lparr> se_userId = fst k, se_eventType = i_type event,
                                se_eventDate = i_date event, se_sendingStatus = sending,
                                se_sendingAttemptedAt = attemptedAt,
                                se_minutesStuck = roundMinutes elapsedMs, se_action = a \<rparr>
              in if elapsedMs > MONITOR_STUCK_TIMEOUT_MS then
                   (case dbUpdate (h_updateFault env k) k
                           (SetFailedWithReason (h_now env) MONITOR_STUCK_REASON) w of
                      (Inl _, w1) \<Rightarrow> (stuck @ [entry monitoring], w1)
                    | (Inr _, w1) \<Rightarrow> (stuck @ [entry marked_failed_for_retry], w1))
                 else (stuck @ [entry monitoring], w)))"

definition healthCheck :: "health_env \<Rightarrow> world \<Rightarrow> (int \<times> health_body) \<times> world" where
  "healthCheck env w =
     (let now = h_now env;
          oneDayAgo = now - 24 * 3600000;
          w1 = emit (DbQuery (MissedQuery oneDayAgo now (h_currentYear env))) w
      in if h_queryFault env 0 then ((500, ErrorReport now), w1)
         else
           (let missed = map toMissedEvent
                           (filter (\<lambda>(k, it). missedFilter oneDayAgo now (h_currentYear env) it)
                              (indexPartition (h_index env) (table w1)));
                w2 = emit (DbQuery SendingQuery) w1
            in if h_queryFault env 1 then ((500, ErrorReport now), w2)
               else
                 (let sendingItems =
                        filter (\<lambda>(k, it). i_sendingStatus it = Some sending
                                            \<and> i_sendingAttemptedAt it \<noteq> None)
                          (indexPartition (h_index env) (table w2));
                      (stuck, w3) = foldl (\<lambda>sw ki. checkStuck env ki sw) ([], w2) sendingItems;
                      missedCount = length missed;
                      stuckCount = length stuck;
                      totalIssues = missedCount + stuckCount;
                      st = classify totalIssues
                  in ((if st = healthy then 200 else if st = warning then 207 else 500,
                       Report \<lparr> status = st, missedEventsCount = missedCount,
                                stuckEventsCount = stuckCount, missedEvents = missed,
                                stuckEvents = stuck, timestamp = now \<rparr>), w3))))"

section \<open>Observing a run\<close>

text \<open>
  The calls a handler made are the effects it appended to the trace.
  \<open>onlyEffects P w w'\<close>: the trace of \<open>w'\<close> extends that of \<open>w\<close>, and every call
  added satisfies \<open>P\<close>.
\<close>

definition newEffects :: "world \<Rightarrow> world \<Rightarrow> effect list" where
  "newEffects w w' = drop (length (trace w)) (trace w')"

definition onlyEffects :: "(effect \<Rightarrow> bool) \<Rightarrow> world \<Rightarrow> world \<Rightarrow> bool" where
  "onlyEffects P w w' =
     (take (length (trace w)) (trace w') = trace w \<and> list_all P (newEffects w w'))"

definition quiet :: "effect \<Rightarrow> bool" where
  "quiet e = (\<not> isHttpPost e \<and> \<not> isRedriveEffect e)"

text \<open>
  The calls of a sweep: index queries, reads of a user's metadata item, and the
  enqueue (the queue URL lookup and the send).
\<close>

definition isSweepEffect :: "effect \<Rightarrow> bool" where
  "isSweepEffect e =
     (case e of
        DbQuery _ \<Rightarrow> True
      | DbGet k \<Rightarrow> snd k = ''METADATA''
      | SqsGetQueueUrl _ \<Rightarrow> True
      | SqsSendMessage _ _ _ _ \<Rightarrow> True
      | _ \<Rightarrow> False)"

definition sweepFrame :: "world \<Rightarrow> world \<Rightarrow> bool" where
  "sweepFrame w w' = (table w' = table w \<and> onlyEffects isSweepEffect w w')"

section \<open>Concrete inputs\<close>

definition world0 :: "table \<Rightarrow> world" where
  "world0 tbl = \<lparr> table = tbl, trace = [], cachedQueueUrls = Map.empty \<rparr>"

definition cfg0 :: config where
  "cfg0 = \<lparr> HOOKBIN_URL = ''https://hookbin.test'', GREETER_QUEUE_NAME = ''GreeterQueue.fifo'',
            DLQ_QUEUE_NAME = ''GreeterDLQ.fifo'' \<rparr>"

definition urls0 :: "string \<Rightarrow> string option" where
  "urls0 = [''GreeterQueue.fifo'' \<mapsto> ''https://sqs.test/greeter'',
            ''GreeterDLQ.fifo'' \<mapsto> ''https://sqs.test/dlq'']"

definition adaUser :: User where
  "adaUser = \<lparr> id' = ''u1'', firstName = ''Ada'', lastName = ''Lovelace'', timezone = ''UTC'',
               createdAt = 0, updatedAt = 0 \<rparr>"

definition adaBirthday :: ymd where
  "adaBirthday = \<lparr> ymd_year = 1990, ymd_month = 6, ymd_day = 15 \<rparr>"

definition nineOClock :: hhmm where
  "nineOClock = \<lparr> hh = 9, mi = 0 \<rparr>"

definition adaKey :: key where
  "adaKey = (''USER#u1'', ''EVENT#birthday'')"

text \<open>2026-06-15T09:00:00.000Z is 1781514000000 ms after the epoch.\<close>

definition adaEvent :: item where
  "adaEvent = emptyItem\<lparr> i_type := Some birthday, i_date := Some adaBirthday,
                i_notifyLocalTime := Some nineOClock, i_notifyUtc := Some 1781514000000,
                i_lastSentYear := Some 0, i_GSI1PK := Some ''EVENT'',
                i_sendingStatus := Some pending \<rparr>"

definition adaTable :: table where
  "adaTable = [(''USER#u1'', ''METADATA'') \<mapsto> emptyItem\<lparr>i_data := Some adaUser\<rparr>,
               adaKey \<mapsto> adaEvent]"

definition healthEnv0 :: health_env where
  "healthEnv0 = \<lparr> h_now = 1781514000000 + 3600000, h_currentYear = 2026, h_index = [adaKey],
                  h_queryFault = (\<lambda>n. False), h_updateFault = (\<lambda>k. False) \<rparr>"

definition dlqMessage0 :: sqs_message where
  "dlqMessage0 = \<lparr> Body = Some (Text ''{}''), ReceiptHandle = ''rh-1'',
                   MessageGroupId = Some ''birthday'',
                   MessageDeduplicationId = Some ''u1-birthday-2026'' \<rparr>"

definition dlqEnv0 :: dlq_env where
  "dlqEnv0 = \<lparr> d_urls = urls0, d_attributes = Some (Some 1), d_probe = Some 200,
               d_receive = Some [dlqMessage0], d_json = (\<lambda>s. JsonValue),
               d_sendFault = (\<lambda>i. False), d_deleteFault = (\<lambda>i. False),
               d_fallbackId = (\<lambda>i. ''redrive-0-0'') \<rparr>"

definition schedEnv0 :: sched_env where
  "schedEnv0 = \<lparr> sch_nowUtc = 1781514000000, sch_currentYear = 2026, sch_index = [adaKey],
                 sch_queryFault = (\<lambda>n. False), sch_getFault = (\<lambda>k. False),
                 sch_sendFault = (\<lambda>k. False), sch_yearNow = (\<lambda>k. 2026), sch_urls = urls0 \<rparr>"

section \<open>Reading the calls of the sender and the producer\<close>

text \<open>\<^verbatim>\<open>currentEvent.lastSentYear ?? 0\<close>\<close>

definition storedLastSentYear :: "item \<Rightarrow> int" where
  "storedLastSentYear it = (case i_lastSentYear it of None \<Rightarrow> 0 | Some y \<Rightarrow> y)"

text \<open>
  The condition of the claim as the store evaluates it: an attribute that is absent
  equals no value.
\<close>

definition claimable :: "int \<Rightarrow> item option \<Rightarrow> bool" where
  "claimable currentLastSentYear stored =
     (case stored of
        None \<Rightarrow> False
      | Some it \<Rightarrow>
          i_lastSentYear it = Some currentLastSentYear
          \<and> (i_sendingStatus it = None
             \<or> (i_sendingStatus it \<noteq> Some sending \<and> i_sendingStatus it \<noteq> Some completed)))"

text \<open>
  The condition of the claim in the words of the specification: the stored
  \<open>lastSentYear\<close>, 0 for a record never sent, equals the value read, and the status is
  absent or neither \<open>sending\<close> nor \<open>completed\<close>.
\<close>

definition claimableBySpec :: "int \<Rightarrow> item option \<Rightarrow> bool" where
  "claimableBySpec currentLastSentYear stored =
     (case stored of
        None \<Rightarrow> False
      | Some it \<Rightarrow>
          storedLastSentYear it = currentLastSentYear
          \<and> (i_sendingStatus it = None
             \<or> (i_sendingStatus it \<noteq> Some sending \<and> i_sendingStatus it \<noteq> Some completed)))"

text \<open>The claim update the sender builds for a message, if the zone is valid.\<close>

definition claimUpdate :: "zonedb \<Rightarrow> sender_env \<Rightarrow> GreeterMessage \<Rightarrow> int \<Rightarrow> update_expr option" where
  "claimUpdate zones env m currentLastSentYear =
     (case zones (timezone m) of
        None \<Rightarrow> None
      | Some toUtc \<Rightarrow>
          Some (ClaimForYear currentLastSentYear (yearNow m)
                  (notifyCandidate toUtc (eventDate m) (notifyLocalTime m) (yearNow m + 1))
                  (s_clock env 2)))"

text \<open>The deduplication id of a send, the message it carries, the idempotency key of a POST.\<close>

definition sentDeduplicationId :: "effect \<Rightarrow> string option" where
  "sentDeduplicationId e = (case e of SqsSendMessage _ _ _ d \<Rightarrow> Some d | _ \<Rightarrow> None)"

definition sentGreeterMessage :: "effect \<Rightarrow> GreeterMessage option" where
  "sentGreeterMessage e =
     (case e of SqsSendMessage _ (Some (GreeterJson m)) _ _ \<Rightarrow> Some m | _ \<Rightarrow> None)"

definition postedIdempotencyKey :: "effect \<Rightarrow> string option" where
  "postedIdempotencyKey e =
     (case e of HttpPost _ headers _ \<Rightarrow> map_of headers ''Idempotency-Key'' | _ \<Rightarrow> None)"

section \<open>Concrete inputs for the sender\<close>

definition senderEnv0 :: sender_env where
  "senderEnv0 = \<lparr> s_dbFault = (\<lambda>n. False), s_concurrent = (\<lambda>n tbl. tbl),
                   s_fetch = Some 200, s_clock = (\<lambda>n. 1781514000000 + int n) \<rparr>"

definition adaRef :: event_ref where
  "adaRef = \<lparr> e_pk = ''USER#u1'', e_sk = ''EVENT#birthday'', e_type = birthday,
              e_date = adaBirthday, e_notifyLocalTime = nineOClock, e_lastSentYear = 0 \<rparr>"

definition adaMessage :: GreeterMessage where
  "adaMessage = greeterMessage adaUser adaRef 2026"

definition stuckTable :: table where
  "stuckTable = adaTable(adaKey \<mapsto> adaEvent\<lparr> i_sendingStatus := Some sending,
                                   i_sendingAttemptedAt := Some 1781514000000 \<rparr>)"

definition stuckEnv :: sender_env where
  "stuckEnv = senderEnv0\<lparr> s_clock := (\<lambda>n. 1781514600000) \<rparr>"

definition outageEnv :: sender_env where
  "outageEnv = senderEnv0\<lparr> s_fetch := Some 500 \<rparr>"

text \<open>Ada's birthday item as a writer that sets no \<open>lastSentYear\<close> would leave it.\<close>

definition legacyTable :: table where
  "legacyTable = adaTable(adaKey \<mapsto> adaEvent\<lparr> i_lastSentYear := None \<rparr>)"

section \<open>Further concrete inputs\<close>

definition emptyDlqEnv :: dlq_env where
  "emptyDlqEnv = dlqEnv0\<lparr> d_attributes := Some (Some 0) \<rparr>"

definition sickDlqEnv :: dlq_env where
  "sickDlqEnv = dlqEnv0\<lparr> d_probe := Some 503 \<rparr>"

definition completedTable :: table where
  "completedTable = adaTable(adaKey \<mapsto> adaEvent\<lparr> i_lastSentYear := Some 2026,
                                       i_sendingStatus := Some completed \<rparr>)"

definition recentEnv :: sender_env where
  "recentEnv = senderEnv0\<lparr> s_clock := (\<lambda>n. 1781514120000) \<rparr>"

definition brokenStoreEnv :: sender_env where
  "brokenStoreEnv = senderEnv0\<lparr> s_dbFault := (\<lambda>n. n = 4) \<rparr>"

section \<open>Properties\<close>

subsection \<open>Traces\<close>

lemma onlyEffectsI:
  "trace w' = trace w @ es \<Longrightarrow> list_all P es \<Longrightarrow> onlyEffects P w w'"
  by (simp add: onlyEffects_def newEffects_def)

lemma onlyEffectsD:
  assumes "onlyEffects P w w'"
  shows "trace w' = trace w @ newEffects w w'" and "list_all P (newEffects w w')"
proof -
  from assms have t: "take (length (trace w)) (trace w') = trace w"
    and p: "list_all P (newEffects w w')"
    by (simp_all add: onlyEffects_def)
  have "trace w' = take (length (trace w)) (trace w') @ drop (length (trace w)) (trace w')"
    by simp
  with t show "trace w' = trace w @ newEffects w w'"
    by (simp add: newEffects_def)
  from p show "list_all P (newEffects w w')" .
qed

lemma onlyEffects_refl: "onlyEffects P w w"
  by (simp add: onlyEffects_def newEffects_def)

lemma onlyEffects_trans:
  assumes "onlyEffects P w w'" and "onlyEffects P w' w''"
  shows "onlyEffects P w w''"
proof -
  from onlyEffectsD [OF assms(1)] onlyEffectsD [OF assms(2)]
  have "trace w'' = trace w @ (newEffects w w' @ newEffects w' w'')"
    and "list_all P (newEffects w w' @ newEffects w' w'')"
    by simp_all
  then show ?thesis by (rule onlyEffectsI)
qed

lemma onlyEffects_mono:
  assumes "onlyEffects P w w'" and "\<And>e. P e \<Longrightarrow> Q e"
  shows "onlyEffects Q w w'"
  using assms by (auto simp: onlyEffects_def list_all_iff)

lemma onlyEffects_emit: "P e \<Longrightarrow> onlyEffects P w (emit e w)"
  by (rule onlyEffectsI [where es = "[e]"]) (simp_all add: emit_def)

subsection \<open>DLQ processor\<close>

lemma getQueueUrl_effects:
  "onlyEffects (\<lambda>e. e = SqsGetQueueUrl q) w (snd (getQueueUrl urls q w))"
  by (auto simp: getQueueUrl_def Let_def emit_def onlyEffects_def newEffects_def
      split: option.splits list.splits)

lemma getMessageCount_effects:
  "onlyEffects quiet w (snd (getMessageCount urls attrs q w))"
proof -
  obtain r w1 where g: "getQueueUrl urls q w = (r, w1)" by (cases "getQueueUrl urls q w")
  have 1: "onlyEffects quiet w w1"
    using getQueueUrl_effects [of q w urls] g
    by (auto intro: onlyEffects_mono simp: quiet_def isHttpPost_def isRedriveEffect_def)
  show ?thesis
  proof (cases r)
    case (Inl e)
    with g 1 show ?thesis by (simp add: getMessageCount_def)
  next
    case (Inr u)
    have "onlyEffects quiet w1 (emit (SqsGetQueueAttributes u) w1)"
      by (rule onlyEffects_emit) (simp add: quiet_def isHttpPost_def isRedriveEffect_def)
    with 1 have "onlyEffects quiet w (emit (SqsGetQueueAttributes u) w1)"
      by (rule onlyEffects_trans)
    with g Inr show ?thesis
      by (simp add: getMessageCount_def Let_def split: option.splits)
  qed
qed

lemma dlqProcessor_cases:
  fixes cfg env w
  defines "n \<equiv> fst (getMessageCount (d_urls env) (d_attributes env) (DLQ_QUEUE_NAME cfg) w)"
  defines "w1 \<equiv> snd (getMessageCount (d_urls env) (d_attributes env) (DLQ_QUEUE_NAME cfg) w)"
  shows "n = 0 \<Longrightarrow> snd (dlqProcessor cfg env w) = w1"
    and "n \<noteq> 0 \<Longrightarrow> d_probe env \<noteq> Some 200 \<Longrightarrow> snd (dlqProcessor cfg env w) = emit (healthProbe cfg) w1"
    and "messagesInDLQ (stats (fst (dlqProcessor cfg env w))) = n"
  unfolding n_def w1_def
  by (auto simp: dlqProcessor_def checkServiceHealth_def Let_def split: prod.splits option.splits)

text \<open>
  C8. A run receives, re-sends or deletes a message only if the depth query answered a
  count above zero and the health probe answered 200. With a depth of zero the run
  makes no webhook call at all; with any other probe result it makes none of the three
  redrive calls.
\<close>

theorem dlqProcessor_redrive_gated:
  fixes cfg env w
  defines "depth \<equiv> fst (getMessageCount (d_urls env) (d_attributes env) (DLQ_QUEUE_NAME cfg) w)"
  defines "w' \<equiv> snd (dlqProcessor cfg env w)"
  shows "((\<exists>e \<in> set (newEffects w w'). isRedriveEffect e) \<longrightarrow> 0 < depth \<and> d_probe env = Some 200)
       \<and> (depth = 0 \<longrightarrow> list_all (\<lambda>e. \<not> isHttpPost e \<and> \<not> isRedriveEffect e) (newEffects w w'))
       \<and> (d_probe env \<noteq> Some 200 \<longrightarrow> list_all (\<lambda>e. \<not> isRedriveEffect e) (newEffects w w'))"
proof -
  let ?w1 = "snd (getMessageCount (d_urls env) (d_attributes env) (DLQ_QUEUE_NAME cfg) w)"
  have q: "onlyEffects quiet w ?w1" by (rule getMessageCount_effects)
  have zero: "list_all quiet (newEffects w w')" if "depth = 0"
  proof -
    from that have "w' = ?w1"
      unfolding w'_def depth_def by (rule dlqProcessor_cases(1))
    with onlyEffectsD(2) [OF q] show ?thesis by simp
  qed
  have sick: "list_all (\<lambda>e. \<not> isRedriveEffect e) (newEffects w w')"
    if "d_probe env \<noteq> Some 200"
  proof (cases "depth = 0")
    case True
    from zero [OF this] show ?thesis by (simp add: list_all_iff quiet_def)
  next
    case False
    with that have "w' = emit (healthProbe cfg) ?w1"
      unfolding w'_def depth_def by (intro dlqProcessor_cases(2))
    moreover have "onlyEffects (\<lambda>e. \<not> isRedriveEffect e) ?w1 (emit (healthProbe cfg) ?w1)"
      by (rule onlyEffects_emit) (simp add: isRedriveEffect_def healthProbe_def)
    moreover have "onlyEffects (\<lambda>e. \<not> isRedriveEffect e) w ?w1"
      using q by (rule onlyEffects_mono) (simp add: quiet_def)
    ultimately have "onlyEffects (\<lambda>e. \<not> isRedriveEffect e) w w'"
      using onlyEffects_trans by simp
    then show ?thesis by (rule onlyEffectsD(2))
  qed
  show ?thesis
    using zero sick by (auto simp: list_all_iff quiet_def)
qed

theorem dlqProcessor_redrive_gated_witness:
  "(\<exists>e \<in> set (newEffects (world0 Map.empty) (snd (dlqProcessor cfg0 dlqEnv0 (world0 Map.empty)))).
      isRedriveEffect e)
   \<and> 0 < fst (getMessageCount (d_urls dlqEnv0) (d_attributes dlqEnv0) (DLQ_QUEUE_NAME cfg0)
              (world0 Map.empty))
   \<and> d_probe dlqEnv0 = Some 200
   \<and> fst (getMessageCount (d_urls emptyDlqEnv) (d_attributes emptyDlqEnv) (DLQ_QUEUE_NAME cfg0)
           (world0 Map.empty)) = 0
   \<and> list_all (\<lambda>e. \<not> isHttpPost e \<and> \<not> isRedriveEffect e)
        (newEffects (world0 Map.empty) (snd (dlqProcessor cfg0 emptyDlqEnv (world0 Map.empty))))
   \<and> d_probe sickDlqEnv \<noteq> Some 200
   \<and> list_all (\<lambda>e. \<not> isRedriveEffect e)
        (newEffects (world0 Map.empty) (snd (dlqProcessor cfg0 sickDlqEnv (world0 Map.empty))))"
proof -
  have "isRedriveEffect (SqsReceiveMessage ''https://sqs.test/dlq'' 1)"
    by (simp add: isRedriveEffect_def)
  moreover have "SqsReceiveMessage ''https://sqs.test/dlq'' 1
      \<in> set (newEffects (world0 Map.empty) (snd (dlqProcessor cfg0 dlqEnv0 (world0 Map.empty))))"
    by code_simp
  ultimately have r: "\<exists>e \<in> set (newEffects (world0 Map.empty)
      (snd (dlqProcessor cfg0 dlqEnv0 (world0 Map.empty)))). isRedriveEffect e"
    by blast
  have z: "fst (getMessageCount (d_urls emptyDlqEnv) (d_attributes emptyDlqEnv)
      (DLQ_QUEUE_NAME cfg0) (world0 Map.empty)) = 0"
    by code_simp
  have s: "d_probe sickDlqEnv \<noteq> Some 200"
    by (simp add: sickDlqEnv_def dlqEnv0_def)
  from dlqProcessor_redrive_gated [of "world0 Map.empty" cfg0 dlqEnv0]
       dlqProcessor_redrive_gated [of "world0 Map.empty" cfg0 emptyDlqEnv]
       dlqProcessor_redrive_gated [of "world0 Map.empty" cfg0 sickDlqEnv]
       r z s
  show ?thesis by blast
qed

text \<open>
  C10. When the queue-attributes call of the depth query is rejected,
  \<open>getMessageCount\<close> answers 0; the processor then reports the DLQ as empty and makes
  neither the health probe nor any redrive call.
\<close>

theorem getMessageCount_failure_reads_empty:
  assumes "d_attributes env = None"
  shows "fst (getMessageCount (d_urls env) (d_attributes env) (DLQ_QUEUE_NAME cfg) w) = 0
       \<and> fst (dlqProcessor cfg env w) =
           \<lparr> statusCode = 200, message = ''DLQ is empty'',
             stats = \<lparr> messagesInDLQ = 0, messagesProcessed = 0, messagesRedriven = 0,
                       messagesFailed = 0, isServiceHealthy = False \<rparr> \<rparr>
       \<and> list_all (\<lambda>e. \<not> isHttpPost e \<and> \<not> isRedriveEffect e)
           (newEffects w (snd (dlqProcessor cfg env w)))"
proof -
  let ?g = "getMessageCount (d_urls env) (d_attributes env) (DLQ_QUEUE_NAME cfg) w"
  have zero: "fst ?g = 0"
    using assms by (simp add: getMessageCount_def Let_def split: prod.splits sum.splits)
  then have resp: "fst (dlqProcessor cfg env w) =
           \<lparr> statusCode = 200, message = ''DLQ is empty'',
             stats = \<lparr> messagesInDLQ = 0, messagesProcessed = 0, messagesRedriven = 0,
                       messagesFailed = 0, isServiceHealthy = False \<rparr> \<rparr>"
    by (cases ?g) (simp add: dlqProcessor_def Let_def)
  from zero have "snd (dlqProcessor cfg env w) = snd ?g"
    by (rule dlqProcessor_cases(1))
  with onlyEffectsD(2) [OF getMessageCount_effects [of w "d_urls env" "d_attributes env"
      "DLQ_QUEUE_NAME cfg"]]
  have "list_all quiet (newEffects w (snd (dlqProcessor cfg env w)))"
    by simp
  then have "list_all (\<lambda>e. \<not> isHttpPost e \<and> \<not> isRedriveEffect e)
      (newEffects w (snd (dlqProcessor cfg env w)))"
    by (simp add: list_all_iff quiet_def)
  with zero resp show ?thesis by simp
qed

theorem getMessageCount_failure_reads_empty_witness:
  "d_attributes (dlqEnv0\<lparr>d_attributes := None\<rparr>) = None
   \<and> message (fst (dlqProcessor cfg0 (dlqEnv0\<lparr>d_attributes := None\<rparr>) (world0 Map.empty)))
       = ''DLQ is empty''
   \<and> newEffects (world0 Map.empty)
       (snd (dlqProcessor cfg0 (dlqEnv0\<lparr>d_attributes := None\<rparr>) (world0 Map.empty)))
       = [SqsGetQueueUrl ''GreeterDLQ.fifo'', SqsGetQueueAttributes ''https://sqs.test/dlq'']"
proof -
  have h: "d_attributes (dlqEnv0\<lparr>d_attributes := None\<rparr>) = None" by simp
  have t: "newEffects (world0 Map.empty)
       (snd (dlqProcessor cfg0 (dlqEnv0\<lparr>d_attributes := None\<rparr>) (world0 Map.empty)))
       = [SqsGetQueueUrl ''GreeterDLQ.fifo'', SqsGetQueueAttributes ''https://sqs.test/dlq'']"
    by code_simp
  from getMessageCount_failure_reads_empty [OF h, of cfg0 "world0 Map.empty"] h t
  show ?thesis by simp
qed


subsection \<open>Health monitor\<close>

lemma classify_cases:
  "(classify n = healthy \<longleftrightarrow> n = 0) \<and> (classify n = warning \<longleftrightarrow> 1 \<le> n \<and> n \<le> 4)
     \<and> (classify n = critical \<longleftrightarrow> 5 \<le> n)"
  by (auto simp: classify_def)

text \<open>
  C9. Unless one of its two queries is rejected, the health monitor answers with a
  report; the counts of a report are the lengths of its two lists, and its status is
  healthy exactly when missed plus stuck is 0, warning exactly when it is between 1 and
  4, critical exactly when it is 5 or more.
\<close>

theorem healthCheck_status_classification:
  "(\<not> h_queryFault env 0 \<and> \<not> h_queryFault env 1
      \<longrightarrow> (\<exists>code r. fst (healthCheck env w) = (code, Report r)))
   \<and> (\<forall>code r. fst (healthCheck env w) = (code, Report r) \<longrightarrow>
         missedEventsCount r = length (missedEvents r)
       \<and> stuckEventsCount r = length (stuckEvents r)
       \<and> (status r = healthy \<longleftrightarrow> missedEventsCount r + stuckEventsCount r = 0)
       \<and> (status r = warning \<longleftrightarrow>
            1 \<le> missedEventsCount r + stuckEventsCount r
            \<and> missedEventsCount r + stuckEventsCount r \<le> 4)
       \<and> (status r = critical \<longleftrightarrow> 5 \<le> missedEventsCount r + stuckEventsCount r))"
proof (intro conjI allI impI)
  assume "\<not> h_queryFault env 0 \<and> \<not> h_queryFault env 1"
  then show "\<exists>code r. fst (healthCheck env w) = (code, Report r)"
    by (simp add: healthCheck_def Let_def split: prod.splits)
next
  fix code r
  assume run: "fst (healthCheck env w) = (code, Report r)"
  then obtain n m ms ss t where
    r: "r = \<lparr> status = classify (n + m), missedEventsCount = n, stuckEventsCount = m,
              missedEvents = ms, stuckEvents = ss, timestamp = t \<rparr>"
    and n: "n = length ms" and m: "m = length ss"
    by (auto simp: healthCheck_def Let_def split: if_splits prod.splits)
  show "missedEventsCount r = length (missedEvents r)" by (simp add: r n)
  show "stuckEventsCount r = length (stuckEvents r)" by (simp add: r m)
  show "status r = healthy \<longleftrightarrow> missedEventsCount r + stuckEventsCount r = 0"
    using classify_cases [of "n + m"] by (simp add: r)
  show "status r = warning \<longleftrightarrow>
      1 \<le> missedEventsCount r + stuckEventsCount r \<and> missedEventsCount r + stuckEventsCount r \<le> 4"
    using classify_cases [of "n + m"] by (simp add: r)
  show "status r = critical \<longleftrightarrow> 5 \<le> missedEventsCount r + stuckEventsCount r"
    using classify_cases [of "n + m"] by (simp add: r)
qed

theorem healthCheck_status_classification_witness:
  "fst (healthCheck healthEnv0 (world0 adaTable)) =
     (207, Report \<lparr> status = warning, missedEventsCount = 1, stuckEventsCount = 0,
        missedEvents = [toMissedEvent (adaKey, adaEvent)], stuckEvents = [],
        timestamp = 1781517600000 \<rparr>)
   \<and> (1::nat) \<le> 1 + 0 \<and> (1::nat) + 0 \<le> 4"
proof -
  have run: "fst (healthCheck healthEnv0 (world0 adaTable)) =
     (207, Report \<lparr> status = warning, missedEventsCount = 1, stuckEventsCount = 0,
        missedEvents = [toMissedEvent (adaKey, adaEvent)], stuckEvents = [],
        timestamp = 1781517600000 \<rparr>)"
    by code_simp
  from healthCheck_status_classification [of healthEnv0 "world0 adaTable"] run
  show ?thesis by simp
qed

subsection \<open>Next-fire computation\<close>

text \<open>
  C1, as stated, fails. In the UTC zone, for the date 1990-06-15 at 09:00 and the
  reference 2026-06-15T09:00:00.000Z, the candidate of 2026 is the reference itself, and
  \<open>computeNotifyUtc\<close> returns it: the result is not later than the reference.
\<close>

theorem computeNotifyUtc_equal_counterexample:
  "yearOf 1781514000000 = 2026
   \<and> notifyCandidate (\<lambda>w. w) adaBirthday nineOClock 2026 = 1781514000000
   \<and> computeNotifyUtc fixedZones 0 adaBirthday ''UTC'' nineOClock (Reference 1781514000000)
       = Inr 1781514000000"
  by code_simp

text \<open>
  C1, amended. For a valid zone \<open>computeNotifyUtc\<close> always returns an instant. When the
  candidate of the reference's year is not earlier than the reference, that candidate
  is returned, so the result is at or after the reference; when the candidate equals
  the reference, the result is the reference itself and the year is not advanced. Only
  when the candidate is strictly earlier is the candidate of the following year
  returned.
\<close>

theorem computeNotifyUtc_not_before_reference:
  assumes "zones tz = Some toUtc"
  shows "(notifyCandidate toUtc bday t (yearOf ref) \<ge> ref \<longrightarrow>
            computeNotifyUtc zones clock bday tz t (Reference ref)
              = Inr (notifyCandidate toUtc bday t (yearOf ref)))
       \<and> (notifyCandidate toUtc bday t (yearOf ref) = ref \<longrightarrow>
            computeNotifyUtc zones clock bday tz t (Reference ref) = Inr ref)
       \<and> (notifyCandidate toUtc bday t (yearOf ref) < ref \<longrightarrow>
            computeNotifyUtc zones clock bday tz t (Reference ref)
              = Inr (notifyCandidate toUtc bday t (yearOf ref + 1)))"
  using assms by (simp add: computeNotifyUtc_def referenceNow_def Let_def)

theorem computeNotifyUtc_not_before_reference_witness:
  "fixedZones ''UTC'' = Some (\<lambda>w. w)
   \<and> notifyCandidate (\<lambda>w. w) adaBirthday nineOClock (yearOf 1781514000000) = 1781514000000
   \<and> computeNotifyUtc fixedZones 0 adaBirthday ''UTC'' nineOClock (Reference 1781514000000)
       = Inr 1781514000000
   \<and> notifyCandidate (\<lambda>w. w) adaBirthday nineOClock (yearOf 1781517600000) < 1781517600000
   \<and> computeNotifyUtc fixedZones 0 adaBirthday ''UTC'' nineOClock (Reference 1781517600000)
       = Inr 1813050000000"
proof -
  have z: "fixedZones ''UTC'' = Some (\<lambda>w. w)" by (simp add: fixedZones_def)
  have c: "notifyCandidate (\<lambda>w. w) adaBirthday nineOClock (yearOf 1781514000000) = 1781514000000"
    by code_simp
  have d: "notifyCandidate (\<lambda>w. w) adaBirthday nineOClock (yearOf 1781517600000) < 1781517600000"
    by code_simp
  have e: "notifyCandidate (\<lambda>w. w) adaBirthday nineOClock (yearOf 1781517600000 + 1) = 1813050000000"
    by code_simp
  from computeNotifyUtc_not_before_reference
         [where zones = fixedZones and tz = "''UTC''" and toUtc = "\<lambda>w. w"
            and bday = adaBirthday and t = nineOClock and ref = 1781514000000 and clock = 0]
       computeNotifyUtc_not_before_reference
         [where zones = fixedZones and tz = "''UTC''" and toUtc = "\<lambda>w. w"
            and bday = adaBirthday and t = nineOClock and ref = 1781517600000 and clock = 0]
       z c d e
  show ?thesis by simp
qed

text \<open>
  The candidate of the following year can itself lie before the reference: on
  Kiritimati, 1 January 2027 00:00 is 2026-12-31T10:00Z, earlier than a reference of
  2026-12-31T23:30Z whose UTC year is still 2026.
\<close>

lemma computeNotifyUtc_next_year_before_reference:
  "computeNotifyUtc fixedZones 0 \<lparr> ymd_year = 1990, ymd_month = 1, ymd_day = 1 \<rparr>
     ''Pacific/Kiritimati'' \<lparr> hh = 0, mi = 0 \<rparr> (Reference 1798759800000) = Inr 1798711200000
   \<and> (1798711200000 :: int) < 1798759800000"
  by code_simp

subsection \<open>Scheduler\<close>

lemma sweepFrame_refl: "sweepFrame w w"
  by (simp add: sweepFrame_def onlyEffects_refl)

lemma sweepFrame_trans: "sweepFrame w w' \<Longrightarrow> sweepFrame w' w'' \<Longrightarrow> sweepFrame w w''"
  by (auto simp: sweepFrame_def intro: onlyEffects_trans)

lemma sweepFrame_emit: "isSweepEffect e \<Longrightarrow> sweepFrame w (emit e w)"
  by (simp add: sweepFrame_def onlyEffects_emit) (simp add: emit_def)

lemma getQueueUrl_table: "table (snd (getQueueUrl urls q w)) = table w"
  by (auto simp: getQueueUrl_def Let_def emit_def split: option.splits list.splits)

lemma getQueueUrl_sweepFrame: "sweepFrame w (snd (getQueueUrl urls q w))"
  unfolding sweepFrame_def
  using getQueueUrl_effects [of q w urls]
  by (auto simp: getQueueUrl_table isSweepEffect_def intro: onlyEffects_mono)

lemma enqueueGreeterMessage_sweepFrame:
  "sweepFrame w (snd (enqueueGreeterMessage cfg urls sendFault year user event w))"
proof -
  obtain r w1 where g: "getQueueUrl urls (GREETER_QUEUE_NAME cfg) w = (r, w1)"
    by (cases "getQueueUrl urls (GREETER_QUEUE_NAME cfg) w")
  with getQueueUrl_sweepFrame [of w urls "GREETER_QUEUE_NAME cfg"]
  have 1: "sweepFrame w w1" by simp
  show ?thesis
  proof (cases r)
    case (Inl e)
    with g 1 show ?thesis by (simp add: enqueueGreeterMessage_def)
  next
    case (Inr u)
    have "sweepFrame w1 (emit (greeterSend u user event year) w1)"
      by (rule sweepFrame_emit) (simp add: isSweepEffect_def greeterSend_def)
    with 1 have "sweepFrame w (emit (greeterSend u user event year) w1)"
      by (rule sweepFrame_trans)
    with g Inr show ?thesis
      by (simp add: enqueueGreeterMessage_def Let_def)
  qed
qed

lemma enqueuePartial_sweepFrame:
  "sweepFrame w (snd (enqueuePartial cfg urls sendFault year user event w))"
proof -
  obtain r w1 where g: "getQueueUrl urls (GREETER_QUEUE_NAME cfg) w = (r, w1)"
    by (cases "getQueueUrl urls (GREETER_QUEUE_NAME cfg) w")
  with getQueueUrl_sweepFrame [of w urls "GREETER_QUEUE_NAME cfg"]
  have 1: "sweepFrame w w1" by simp
  show ?thesis
  proof (cases r)
    case (Inl e)
    with g 1 show ?thesis by (simp add: enqueuePartial_def)
  next
    case (Inr u)
    have "sweepFrame w1 (emit (partialSend u user event year) w1)"
      by (rule sweepFrame_emit) (simp add: isSweepEffect_def partialSend_def)
    with 1 have "sweepFrame w (emit (partialSend u user event year) w1)"
      by (rule sweepFrame_trans)
    with g Inr show ?thesis
      by (simp add: enqueuePartial_def Let_def)
  qed
qed

lemma dbGet_metadata_sweepFrame: "sweepFrame w (snd (dbGet fault (p, ''METADATA'') w))"
proof -
  have "sweepFrame w (emit (DbGet (p, ''METADATA'')) w)"
    by (rule sweepFrame_emit) (simp add: isSweepEffect_def)
  then show ?thesis by (simp add: dbGet_def Let_def)
qed

lemma scheduleItem_sweepFrame:
  "sweepFrame w (snd (scheduleItem cfg env ki (c, w)))"
proof -
  obtain k eventItem where ki: "ki = (k, eventItem)" by (cases ki)
  obtain g w1 where d: "dbGet (sch_getFault env k) (fst k, ''METADATA'') w = (g, w1)"
    by (cases "dbGet (sch_getFault env k) (fst k, ''METADATA'') w")
  with dbGet_metadata_sweepFrame [of w "sch_getFault env k" "fst k"]
  have 1: "sweepFrame w w1" by simp
  have 2: "sweepFrame w w2"
    if "enqueueGreeterMessage cfg urls sf y u ev w1 = (r, w2)" for urls sf y u ev r w2
    using 1 enqueueGreeterMessage_sweepFrame [of w1 cfg urls sf y u ev] that
    by (auto intro: sweepFrame_trans)
  have 3: "sweepFrame w w2"
    if "enqueuePartial cfg urls sf y u ev w1 = (r, w2)" for urls sf y u ev r w2
    using 1 enqueuePartial_sweepFrame [of w1 cfg urls sf y u ev] that
    by (auto intro: sweepFrame_trans)
  show ?thesis
    using 1
    by (auto simp: scheduleItem_def ki d Let_def split: sum.splits option.splits prod.splits
        dest: 2 3)
qed

lemma scheduleItems_sweepFrame:
  "sweepFrame w (snd (foldl (\<lambda>cw ki. scheduleItem cfg env ki cw) (c, w) events))"
proof (induction events arbitrary: c w)
  case Nil
  show ?case by (simp add: sweepFrame_refl)
next
  case (Cons ki events)
  obtain c1 w1 where s: "scheduleItem cfg env ki (c, w) = (c1, w1)"
    by (cases "scheduleItem cfg env ki (c, w)")
  with scheduleItem_sweepFrame [of w cfg env ki c] have "sweepFrame w w1" by simp
  from this Cons.IH [of w1 c1] show ?case
    by (simp add: s) (rule sweepFrame_trans)
qed

lemma schedulerLoop_sweepFrame:
  "sweepFrame w (snd (schedulerLoop cfg env pageNumber cursor c w))"
proof (induction cfg env pageNumber cursor c w rule: schedulerLoop.induct)
  case (1 cfg env pageNumber cursor c w)
  let ?w1 = "emit (DbQuery (DueQuery (sch_nowUtc env) (sch_currentYear env)
                       (if pageNumber = 0 then None else Some cursor))) w"
  let ?c1 = "c\<lparr>totalPages := totalPages c + 1\<rparr>"
  have q: "sweepFrame w ?w1"
    by (rule sweepFrame_emit) (simp add: isSweepEffect_def)
  show ?case
  proof (cases "sch_queryFault env (pageNumber + 1)")
    case True
    with q show ?thesis by (subst schedulerLoop.simps) (simp add: Let_def)
  next
    case False
    obtain events lek where p:
      "queryDuePage (sch_index env) (sch_nowUtc env) (sch_currentYear env) cursor (table ?w1)
         = (events, lek)"
      by (cases "queryDuePage (sch_index env) (sch_nowUtc env) (sch_currentYear env) cursor (table ?w1)")
    obtain c2 w2 where f:
      "foldl (\<lambda>cw ki. scheduleItem cfg env ki cw) (?c1, ?w1) events = (c2, w2)"
      by (cases "foldl (\<lambda>cw ki. scheduleItem cfg env ki cw) (?c1, ?w1) events")
    with scheduleItems_sweepFrame [of ?w1 cfg env ?c1 events]
    have "sweepFrame ?w1 w2" by simp
    with q have w2: "sweepFrame w w2" by (rule sweepFrame_trans)
    show ?thesis
    proof (cases lek)
      case None
      with False p f w2 show ?thesis
        by (subst schedulerLoop.simps) (simp add: Let_def)
    next
      case (Some cursor')
      from "1.IH" [OF refl refl refl False p [symmetric] refl f [symmetric] refl Some]
      have "sweepFrame w2 (snd (schedulerLoop cfg env (pageNumber + 1) cursor' c2 w2))" .
      with w2 have "sweepFrame w (snd (schedulerLoop cfg env (pageNumber + 1) cursor' c2 w2))"
        by (rule sweepFrame_trans)
      with False p f Some show ?thesis
        by (subst schedulerLoop.simps) (simp add: Let_def)
    qed
  qed
qed

text \<open>
  C7. A sweep leaves the table as it found it, whether it completes or is ended by a
  rejected page query: every stored item is the same before and after. The calls it
  makes are index queries, metadata reads and enqueues only; none is an update.
\<close>

theorem scheduler_never_writes_events:
  "table (snd (scheduler cfg env w)) = table w
   \<and> list_all isSweepEffect (newEffects w (snd (scheduler cfg env w)))
   \<and> list_all (\<lambda>e. \<not> isDbUpdate e) (newEffects w (snd (scheduler cfg env w)))"
proof -
  have "sweepFrame w (snd (scheduler cfg env w))"
    unfolding scheduler_def by (rule schedulerLoop_sweepFrame)
  then have t: "table (snd (scheduler cfg env w)) = table w"
    and e: "list_all isSweepEffect (newEffects w (snd (scheduler cfg env w)))"
    by (simp_all add: sweepFrame_def onlyEffects_def)
  from e have "list_all (\<lambda>e. \<not> isDbUpdate e) (newEffects w (snd (scheduler cfg env w)))"
    by (auto simp: list_all_iff isSweepEffect_def isDbUpdate_def split: effect.splits)
  with t e show ?thesis by simp
qed

theorem scheduler_never_writes_events_witness:
  "fst (scheduler cfg0 schedEnv0 (world0 adaTable))
     = Inr \<lparr> totalUsersProcessed = 1, totalEnqueueFailures = 0, totalPages = 1 \<rparr>
   \<and> table (snd (scheduler cfg0 schedEnv0 (world0 adaTable))) = adaTable
   \<and> length (newEffects (world0 adaTable) (snd (scheduler cfg0 schedEnv0 (world0 adaTable)))) = 4"
proof -
  have r: "fst (scheduler cfg0 schedEnv0 (world0 adaTable))
     = Inr \<lparr> totalUsersProcessed = 1, totalEnqueueFailures = 0, totalPages = 1 \<rparr>"
    by code_simp
  have n: "length (newEffects (world0 adaTable) (snd (scheduler cfg0 schedEnv0 (world0 adaTable)))) = 4"
    by code_simp
  from scheduler_never_writes_events [of cfg0 schedEnv0 "world0 adaTable"] r n
  show ?thesis by (simp add: world0_def)
qed

section \<open>Properties of the sender\<close>

subsection \<open>Store calls\<close>

lemma trace_emit [simp]: "trace (emit e w) = trace w @ [e]"
  and table_emit [simp]: "table (emit e w) = table w"
  by (simp_all add: emit_def)

lemma trace_interleave [simp]: "trace (interleave f w) = trace w"
  and table_interleave [simp]: "table (interleave f w) = f (table w)"
  by (simp_all add: interleave_def)

lemma newEffects_append [simp]: "trace w' = trace w @ es \<Longrightarrow> newEffects w w' = es"
  by (simp add: newEffects_def)

lemma dbGet_eq:
  "dbGet fault k w = (if fault then Inl StoreError else Inr (table w k), emit (DbGet k) w)"
  by (simp add: dbGet_def Let_def)

lemma trace_dbUpdate [simp]: "trace (snd (dbUpdate fault k u w)) = trace w @ [DbUpdate k u]"
  by (simp add: dbUpdate_def Let_def)

lemma conditionHolds_claim:
  "conditionHolds (ClaimForYear cur y n now) stored = claimable cur stored"
proof (cases stored)
  case None
  then show ?thesis by (simp add: conditionHolds_def claimable_def)
next
  case (Some it)
  show ?thesis
  proof (cases "i_sendingStatus it")
    case None
    with Some show ?thesis by (simp add: conditionHolds_def claimable_def)
  next
    case (Some s)
    with \<open>stored = Some it\<close> show ?thesis
      by (cases s) (simp_all add: conditionHolds_def claimable_def)
  qed
qed

lemma dbUpdate_fault: "dbUpdate True k u w = (Inl StoreError, emit (DbUpdate k u) w)"
  by (simp add: dbUpdate_def Let_def)

lemma dbUpdate_rejected:
  "\<not> conditionHolds u (table w k) \<Longrightarrow>
     dbUpdate False k u w = (Inl ConditionalCheckFailedException, emit (DbUpdate k u) w)"
  by (simp add: dbUpdate_def Let_def)

lemma dbUpdate_applied:
  "conditionHolds u (table w k) \<Longrightarrow>
     dbUpdate False k u w =
       (Inr (assign u (case table w k of None \<Rightarrow> emptyItem | Some old \<Rightarrow> old)),
        (emit (DbUpdate k u) w)
          \<lparr>table := (table w)(k \<mapsto> assign u (case table w k of None \<Rightarrow> emptyItem | Some old \<Rightarrow> old))\<rparr>)"
  by (simp add: dbUpdate_def Let_def)

lemma dbUpdate_result:
  "fst (dbUpdate fault k u w) =
     (if fault then Inl StoreError
      else if \<not> conditionHolds u (table w k) then Inl ConditionalCheckFailedException
      else Inr (assign u (case table w k of None \<Rightarrow> emptyItem | Some old \<Rightarrow> old)))"
  by (simp add: dbUpdate_def Let_def)

lemma dbUpdate_table:
  "table (snd (dbUpdate fault k u w)) =
     (if fault \<or> \<not> conditionHolds u (table w k) then table w
      else (table w)(k \<mapsto> assign u (case table w k of None \<Rightarrow> emptyItem | Some old \<Rightarrow> old)))"
  by (simp add: dbUpdate_def Let_def)

subsection \<open>Phases 2 and 3\<close>

lemma deliverPhase_effects:
  "trace (snd (deliverPhase cfg env m w)) = trace w @
     (case s_fetch env of
        None \<Rightarrow> [webhookPost cfg m]
      | Some st \<Rightarrow>
          if st \<noteq> 200 then [webhookPost cfg m, DbUpdate (pk m, sk m) (SetFailed (s_clock env 3))]
          else [webhookPost cfg m,
                DbUpdate (pk m, sk m) (SetCompleted (s_clock env 4) st (s_clock env 5))])"
  by (simp add: deliverPhase_def Let_def case_prod_beta split: option.splits)

lemma deliverPhase_outcome:
  "fst (deliverPhase cfg env m w) =
     (case s_fetch env of
        None \<Rightarrow> Raised NetworkError
      | Some st \<Rightarrow>
          if st \<noteq> 200
          then Raised (WebhookFailed (''Failed to send message to Hookbin for user '' @ fullName m))
          else Delivered (\<not> s_dbFault env 4))"
  by (simp add: deliverPhase_def Let_def case_prod_beta dbUpdate_result conditionHolds_def
      split: option.splits)

subsection \<open>Phase 1\<close>

lemma claimPhase_eq:
  "claimPhase zones cfg env m cur w =
     (case claimUpdate zones env m cur of
        None \<Rightarrow> (Raised InvalidTimeZone, w)
      | Some u \<Rightarrow>
          (let w1 = snd (dbUpdate (s_dbFault env 2) (pk m, sk m) u
                           (interleave (s_concurrent env 2) w))
           in if s_dbFault env 2 then (Raised StoreError, w1)
              else if \<not> claimable cur (s_concurrent env 2 (table w) (pk m, sk m))
              then (Skipped LostRace, w1)
              else deliverPhase cfg env m w1))"
  by (simp add: claimPhase_def claimUpdate_def Let_def case_prod_beta dbUpdate_result
      conditionHolds_claim split: option.splits)

lemma deliverPhase_not_skipped: "fst (deliverPhase cfg env m w) \<noteq> Skipped s"
  by (simp add: deliverPhase_outcome split: option.splits)

lemma claimPhase_skips_only_lost_race:
  "fst (claimPhase zones cfg env m cur w) = Skipped s \<Longrightarrow> s = LostRace"
  by (auto simp: claimPhase_eq Let_def deliverPhase_not_skipped split: option.splits if_splits)

lemma claimPhase_lost_race:
  assumes "fst (claimPhase zones cfg env m cur w) = Skipped LostRace"
  shows "\<exists>u. claimUpdate zones env m cur = Some u
           \<and> trace (snd (claimPhase zones cfg env m cur w)) = trace w @ [DbUpdate (pk m, sk m) u]
           \<and> \<not> claimable cur (s_concurrent env 2 (table w) (pk m, sk m))"
  using assms
  by (auto simp: claimPhase_eq Let_def deliverPhase_not_skipped split: option.splits if_splits)

lemma claimPhase_first_effect:
  assumes "claimUpdate zones env m cur = Some u"
  shows "\<exists>rest. trace (snd (claimPhase zones cfg env m cur w))
           = trace w @ DbUpdate (pk m, sk m) u # rest"
  using assms by (simp add: claimPhase_eq Let_def deliverPhase_effects)

subsection \<open>The record as a whole\<close>

lemma senderRecord_eq:
  "senderRecord zones cfg env m w =
     (let w1 = emit (DbGet (pk m, sk m)) (interleave (s_concurrent env 0) w)
      in if s_dbFault env 0 then (Raised StoreError, w1)
         else case s_concurrent env 0 (table w) (pk m, sk m) of
                None \<Rightarrow> (Skipped EventMissing, w1)
              | Some ev \<Rightarrow>
                  if storedLastSentYear ev \<ge> yearNow m \<and> i_sendingStatus ev = Some completed
                  then (Skipped Duplicate, w1)
                  else if i_sendingStatus ev = Some sending \<and> i_sendingAttemptedAt ev \<noteq> None
                  then (if s_clock env 0 - the (i_sendingAttemptedAt ev) < STUCK_TIMEOUT_MS
                        then (Skipped InFlight, w1)
                        else claimPhase zones cfg env m (storedLastSentYear ev)
                               (snd (dbUpdate (s_dbFault env 1) (pk m, sk m)
                                       (SetFailedWithReason (s_clock env 1) STUCK_REASON)
                                       (interleave (s_concurrent env 1) w1))))
                  else claimPhase zones cfg env m (storedLastSentYear ev) w1)"
  by (auto simp: senderRecord_def dbGet_eq Let_def case_prod_beta storedLastSentYear_def
      split: option.splits)

lemma senderRecord_reaches_delivery:
  assumes "list_ex isHttpPost (newEffects w (snd (senderRecord zones cfg env m w)))"
  shows "\<exists>w3. senderRecord zones cfg env m w = deliverPhase cfg env m w3"
proof -
  have claim: "\<exists>w3. claimPhase zones cfg env m c w1 = deliverPhase cfg env m w3"
    if "trace w1 = trace w @ es" and "list_all (\<lambda>e. \<not> isHttpPost e) es"
      and "list_ex isHttpPost (newEffects w (snd (claimPhase zones cfg env m c w1)))"
    for c w1 es
    using that
    by (auto simp: claimPhase_eq Let_def isHttpPost_def list_ex_iff list_all_iff
        split: option.splits if_splits)
  let ?k = "(pk m, sk m)"
  let ?w1 = "emit (DbGet ?k) (interleave (s_concurrent env 0) w)"
  let ?w2 = "snd (dbUpdate (s_dbFault env 1) ?k (SetFailedWithReason (s_clock env 1) STUCK_REASON)
                    (interleave (s_concurrent env 1) ?w1))"
  have t1: "trace ?w1 = trace w @ [DbGet ?k]" by simp
  have t2: "trace ?w2 = trace w @ [DbGet ?k,
              DbUpdate ?k (SetFailedWithReason (s_clock env 1) STUCK_REASON)]"
    by simp
  have "snd (senderRecord zones cfg env m w) = ?w1
      \<or> (\<exists>c. senderRecord zones cfg env m w = claimPhase zones cfg env m c ?w1)
      \<or> (\<exists>c. senderRecord zones cfg env m w = claimPhase zones cfg env m c ?w2)"
    by (auto simp: senderRecord_eq Let_def split: option.splits)
  then consider (early) "snd (senderRecord zones cfg env m w) = ?w1"
    | (fresh) c where "senderRecord zones cfg env m w = claimPhase zones cfg env m c ?w1"
    | (stuck) c where "senderRecord zones cfg env m w = claimPhase zones cfg env m c ?w2"
    by blast
  then show ?thesis
  proof cases
    case early
    with assms t1 show ?thesis by (simp add: isHttpPost_def)
  next
    case (fresh c)
    from claim [OF t1, of c] assms fresh show ?thesis by (simp add: isHttpPost_def)
  next
    case (stuck c)
    from claim [OF t2, of c] assms stuck show ?thesis by (simp add: isHttpPost_def)
  qed
qed

subsection \<open>Sender: duplicate guard\<close>

text \<open>
  C3. When the read of the event record succeeds and finds a record, the message is
  dropped as a duplicate exactly when the record's \<open>lastSentYear\<close> (0 when absent) is at
  least the message's \<open>yearNow\<close> and its \<open>sendingStatus\<close> is \<open>completed\<close>; the
  read is then the only call made: no webhook call, no store write.
\<close>

theorem sender_duplicate_guard:
  assumes "\<not> s_dbFault env 0"
    and "s_concurrent env 0 (table w) (pk m, sk m) = Some ev"
  shows "(fst (senderRecord zones cfg env m w) = Skipped Duplicate
            \<longleftrightarrow> storedLastSentYear ev \<ge> yearNow m \<and> i_sendingStatus ev = Some completed)
       \<and> (fst (senderRecord zones cfg env m w) = Skipped Duplicate \<longrightarrow>
            newEffects w (snd (senderRecord zones cfg env m w)) = [DbGet (pk m, sk m)]
          \<and> list_all (\<lambda>e. \<not> isHttpPost e \<and> \<not> isDbUpdate e)
               (newEffects w (snd (senderRecord zones cfg env m w))))"
proof -
  have no: "fst (claimPhase zones cfg env m c w') \<noteq> Skipped Duplicate" for c w'
    using claimPhase_skips_only_lost_race [of zones cfg env m c w' Duplicate] by auto
  show ?thesis
    using assms no
    by (auto simp: senderRecord_eq Let_def isHttpPost_def isDbUpdate_def)
qed

theorem sender_duplicate_guard_witness:
  "fst (senderRecord fixedZones cfg0 senderEnv0 adaMessage (world0 completedTable))
     = Skipped Duplicate
   \<and> newEffects (world0 completedTable)
        (snd (senderRecord fixedZones cfg0 senderEnv0 adaMessage (world0 completedTable)))
     = [DbGet adaKey]
   \<and> \<not> storedLastSentYear adaEvent \<ge> yearNow adaMessage
   \<and> fst (senderRecord fixedZones cfg0 senderEnv0 adaMessage (world0 adaTable))
       \<noteq> Skipped Duplicate"
proof -
  let ?ev = "adaEvent\<lparr> i_lastSentYear := Some 2026, i_sendingStatus := Some completed \<rparr>"
  have f: "\<not> s_dbFault senderEnv0 0" by (simp add: senderEnv0_def)
  have k: "(pk adaMessage, sk adaMessage) = adaKey" by code_simp
  have r: "s_concurrent senderEnv0 0 (table (world0 completedTable)) (pk adaMessage, sk adaMessage)
             = Some ?ev"
    by (simp add: k) (simp add: senderEnv0_def world0_def completedTable_def)
  have r': "s_concurrent senderEnv0 0 (table (world0 adaTable)) (pk adaMessage, sk adaMessage)
             = Some adaEvent"
    by (simp add: k) (simp add: senderEnv0_def world0_def adaTable_def)
  have d: "storedLastSentYear ?ev \<ge> yearNow adaMessage \<and> i_sendingStatus ?ev = Some completed"
    by code_simp
  have n: "\<not> storedLastSentYear adaEvent \<ge> yearNow adaMessage"
    by code_simp
  from sender_duplicate_guard [OF f r, of fixedZones cfg0]
       sender_duplicate_guard [OF f r', of fixedZones cfg0] d n k
  show ?thesis by simp
qed

subsection \<open>Sender: a record found in \<open>sending\<close>\<close>



subsection \<open>Sender: the claim\<close>

lemma conditionHolds_bySpec:
  "i_lastSentYear it \<noteq> None \<Longrightarrow>
     conditionHolds (ClaimForYear cur y n now) (Some it) = claimableBySpec cur (Some it)"
  by (auto simp: conditionHolds_claim claimable_def claimableBySpec_def storedLastSentYear_def)

text \<open>
  What the sender does with a record it read that is neither a duplicate nor found in
  \<open>sending\<close>, for a valid zone and a claim call the store does not reject for another
  reason. The claim it sends carries the \<open>lastSentYear\<close> it read (0 when absent), the
  message's \<open>yearNow\<close> and next year's instant. If the item stored at that moment
  passes the condition, the one write sets the claimed attributes on it and the sender
  goes on to the webhook call; otherwise the table is left as it was and the record
  ends as a lost race, the read and the claim being its only calls.
\<close>

lemma senderRecord_claim:
  fixes zones cfg env m w ev toUtc
  defines "k \<equiv> (pk m, sk m)"
  defines "u \<equiv> ClaimForYear (storedLastSentYear ev) (yearNow m)
                 (notifyCandidate toUtc (eventDate m) (notifyLocalTime m) (yearNow m + 1))
                 (s_clock env 2)"
  defines "tbl \<equiv> s_concurrent env 2 (s_concurrent env 0 (table w))"
  assumes "\<not> s_dbFault env 0"
    and "s_concurrent env 0 (table w) k = Some ev"
    and "\<not> (storedLastSentYear ev \<ge> yearNow m \<and> i_sendingStatus ev = Some completed)"
    and "\<not> (i_sendingStatus ev = Some sending \<and> i_sendingAttemptedAt ev \<noteq> None)"
    and "zones (timezone m) = Some toUtc"
    and "\<not> s_dbFault env 2"
  shows "claimable (storedLastSentYear ev) (tbl k) \<Longrightarrow>
           \<exists>w' it. senderRecord zones cfg env m w = deliverPhase cfg env m w'
                 \<and> trace w' = trace w @ [DbGet k, DbUpdate k u]
                 \<and> tbl k = Some it \<and> table w' = tbl(k \<mapsto> assign u it)"
    and "\<not> claimable (storedLastSentYear ev) (tbl k) \<Longrightarrow>
           \<exists>w'. senderRecord zones cfg env m w = (Skipped LostRace, w')
                 \<and> trace w' = trace w @ [DbGet k, DbUpdate k u]
                 \<and> table w' = tbl"
proof -
  let ?w1 = "emit (DbGet k) (interleave (s_concurrent env 0) w)"
  let ?w2 = "snd (dbUpdate (s_dbFault env 2) k u (interleave (s_concurrent env 2) ?w1))"
  have r: "senderRecord zones cfg env m w = claimPhase zones cfg env m (storedLastSentYear ev) ?w1"
    using assms(4-7) by (auto simp: senderRecord_eq Let_def k_def)
  have cu: "claimUpdate zones env m (storedLastSentYear ev) = Some u"
    using assms(8) by (simp add: claimUpdate_def u_def)
  have t: "trace ?w2 = trace w @ [DbGet k, DbUpdate k u]" by simp
  { assume c: "claimable (storedLastSentYear ev) (tbl k)"
    then obtain it where it: "tbl k = Some it"
      by (auto simp: claimable_def split: option.splits)
    from c have "senderRecord zones cfg env m w = deliverPhase cfg env m ?w2"
      using assms(9) by (simp add: r claimPhase_eq cu Let_def k_def [symmetric] tbl_def)
    moreover from c it have "table ?w2 = tbl(k \<mapsto> assign u it)"
      using assms(9) unfolding tbl_def
      by (simp add: dbUpdate_table u_def conditionHolds_claim)
    ultimately show "\<exists>w' it. senderRecord zones cfg env m w = deliverPhase cfg env m w'
                 \<and> trace w' = trace w @ [DbGet k, DbUpdate k u]
                 \<and> tbl k = Some it \<and> table w' = tbl(k \<mapsto> assign u it)"
      using t it by blast }
  { assume c: "\<not> claimable (storedLastSentYear ev) (tbl k)"
    then have "senderRecord zones cfg env m w = (Skipped LostRace, ?w2)"
      using assms(9) by (simp add: r claimPhase_eq cu Let_def k_def [symmetric] tbl_def)
    moreover from c have "table ?w2 = tbl"
      using assms(9) unfolding tbl_def
      by (simp add: dbUpdate_table u_def conditionHolds_claim)
    ultimately show "\<exists>w'. senderRecord zones cfg env m w = (Skipped LostRace, w')
                 \<and> trace w' = trace w @ [DbGet k, DbUpdate k u]
                 \<and> table w' = tbl"
      using t by blast }
qed


subsection \<open>Sender: the webhook response\<close>




subsection \<open>Deduplication id and idempotency key\<close>

text \<open>
  C6, as stated, fails. A sweep over Ada's birthday enqueues one message with
  \<^verbatim>\<open>MessageDeduplicationId\<close> \<open>u1-birthday-2026\<close>; the sender, given that message,
  posts with \<^verbatim>\<open>Idempotency-Key\<close> \<open>USER#u1-birthday-2026\<close>. The two strings differ.
\<close>

theorem dedup_key_mismatch_counterexample:
  "List.map_filter sentGreeterMessage (trace (snd (scheduler cfg0 schedEnv0 (world0 adaTable))))
     = [adaMessage]
   \<and> List.map_filter sentDeduplicationId (trace (snd (scheduler cfg0 schedEnv0 (world0 adaTable))))
     = [''u1-birthday-2026'']
   \<and> List.map_filter postedIdempotencyKey
        (trace (snd (senderRecord fixedZones cfg0 senderEnv0 adaMessage (world0 adaTable))))
     = [''USER#u1-birthday-2026'']
   \<and> ''u1-birthday-2026'' \<noteq> ''USER#u1-birthday-2026''"
  by code_simp

text \<open>
  C6, amended. For an event enqueued for a user, an event type and a year, the
  producer sets \<^verbatim>\<open>MessageDeduplicationId\<close> to \<open>{user.id}-{type}-{year}\<close>, and the
  sender's POST for that message carries \<^verbatim>\<open>Idempotency-Key\<close>
  \<open>{pk}-{eventType}-{yearNow}\<close>, where \<open>pk\<close> is the partition key of the event item.
  For an event stored under \<open>USER#{user.id}\<close> the header is the deduplication id
  prefixed with \<open>USER#\<close>: the two agree on event type and year but are not the same
  string.
\<close>

theorem dedup_and_idempotency_keys:
  "sentDeduplicationId (greeterSend url user event year)
     = Some (id' user @ ''-'' @ eventName (e_type event) @ ''-'' @ showInt year)
   \<and> postedIdempotencyKey (webhookPost cfg (greeterMessage user event year))
     = Some (e_pk event @ ''-'' @ eventName (e_type event) @ ''-'' @ showInt year)
   \<and> (e_pk event = ''USER#'' @ id' user \<longrightarrow>
        postedIdempotencyKey (webhookPost cfg (greeterMessage user event year))
          = Some (''USER#'' @ id' user @ ''-'' @ eventName (e_type event) @ ''-'' @ showInt year)
      \<and> postedIdempotencyKey (webhookPost cfg (greeterMessage user event year))
          \<noteq> sentDeduplicationId (greeterSend url user event year))
   \<and> (getQueueUrl urls (GREETER_QUEUE_NAME cfg) w = (Inr url, w1) \<longrightarrow>
        last (trace (snd (enqueueGreeterMessage cfg urls sendFault year user event w)))
          = greeterSend url user event year)
   \<and> hd (newEffects w (snd (deliverPhase cfg env m w))) = webhookPost cfg m"
proof (intro conjI impI)
  show d: "sentDeduplicationId (greeterSend url user event year)
     = Some (id' user @ ''-'' @ eventName (e_type event) @ ''-'' @ showInt year)"
    by (simp add: sentDeduplicationId_def greeterSend_def)
  show i: "postedIdempotencyKey (webhookPost cfg (greeterMessage user event year))
     = Some (e_pk event @ ''-'' @ eventName (e_type event) @ ''-'' @ showInt year)"
    by (simp add: postedIdempotencyKey_def webhookPost_def idempotencyKey_def greeterMessage_def)
  { assume p: "e_pk event = ''USER#'' @ id' user"
    with i show "postedIdempotencyKey (webhookPost cfg (greeterMessage user event year))
          = Some (''USER#'' @ id' user @ ''-'' @ eventName (e_type event) @ ''-'' @ showInt year)"
      by simp
    have "length (e_pk event @ ''-'' @ eventName (e_type event) @ ''-'' @ showInt year)
        \<noteq> length (id' user @ ''-'' @ eventName (e_type event) @ ''-'' @ showInt year)"
      by (simp add: p)
    then have "e_pk event @ ''-'' @ eventName (e_type event) @ ''-'' @ showInt year
        \<noteq> id' user @ ''-'' @ eventName (e_type event) @ ''-'' @ showInt year"
      by metis
    with d i show "postedIdempotencyKey (webhookPost cfg (greeterMessage user event year))
          \<noteq> sentDeduplicationId (greeterSend url user event year)"
      by simp }
  { assume "getQueueUrl urls (GREETER_QUEUE_NAME cfg) w = (Inr url, w1)"
    then show "last (trace (snd (enqueueGreeterMessage cfg urls sendFault year user event w)))
          = greeterSend url user event year"
      by (simp add: enqueueGreeterMessage_def Let_def) }
  show "hd (newEffects w (snd (deliverPhase cfg env m w))) = webhookPost cfg m"
    by (simp add: deliverPhase_effects split: option.splits)
qed

theorem dedup_and_idempotency_keys_witness:
  "e_pk adaRef = ''USER#'' @ id' adaUser
   \<and> sentDeduplicationId (greeterSend ''https://sqs.test/greeter'' adaUser adaRef 2026)
       = Some ''u1-birthday-2026''
   \<and> postedIdempotencyKey (webhookPost cfg0 (greeterMessage adaUser adaRef 2026))
       = Some ''USER#u1-birthday-2026''
   \<and> fst (getQueueUrl urls0 (GREETER_QUEUE_NAME cfg0) (world0 adaTable))
       = Inr ''https://sqs.test/greeter''
   \<and> last (trace (snd (enqueueGreeterMessage cfg0 urls0 False 2026 adaUser adaRef (world0 adaTable))))
       = greeterSend ''https://sqs.test/greeter'' adaUser adaRef 2026"
proof -
  have p: "e_pk adaRef = ''USER#'' @ id' adaUser" by code_simp
  have d: "id' adaUser @ ''-'' @ eventName (e_type adaRef) @ ''-'' @ showInt 2026
             = ''u1-birthday-2026''"
    by code_simp
  have g: "fst (getQueueUrl urls0 (GREETER_QUEUE_NAME cfg0) (world0 adaTable))
       = Inr ''https://sqs.test/greeter''"
    by code_simp
  then have g': "getQueueUrl urls0 (GREETER_QUEUE_NAME cfg0) (world0 adaTable)
       = (Inr ''https://sqs.test/greeter'',
          snd (getQueueUrl urls0 (GREETER_QUEUE_NAME cfg0) (world0 adaTable)))"
    by (metis prod.collapse)
  from dedup_and_idempotency_keys
         [where url = "''https://sqs.test/greeter''" and user = adaUser and event = adaRef
            and year = 2026 and cfg = cfg0 and urls = urls0 and w = "world0 adaTable"
            and ?w1.0 = "snd (getQueueUrl urls0 (GREETER_QUEUE_NAME cfg0) (world0 adaTable))"
            and sendFault = False]
       p d g g'
  show ?thesis by simp
qed

end
